theory Spec2Isabelle
  imports Main "HOL-Library.Word"
begin

section \<open>A shallow embedding of \<open>client.c\<close>\<close>

text \<open>
  The client is a single-shot process: it validates three command-line arguments, resolves
  the address family, opens and connects a stream socket, sends the command behind a
  one-byte length prefix, performs one receive, prints the reply and exits.

  Every function of \<open>client.c\<close> is translated into a function over an explicit
  \<open>world\<close> (what the process has written and which calls it has made) and an explicit
  environment \<open>env\<close> (what the operating system and the C library answer). A call to
  \<open>exit\<close> is the result \<open>Exited\<close>, an ordinary return is \<open>Ret\<close>, and the death of the
  process by a signal is \<open>Killed\<close>.

  Each system call is made at most once in a run, so the environment holds one answer
  per call. The standard streams are taken to accept whatever is written to them. Not
  modelled: the time a blocking call takes, and the order in which stdio's buffer and
  direct writes reach the output descriptor.
\<close>

subsection \<open>Data\<close>

type_synonym byte = "8 word"

text \<open>
  \<open>struct sockaddr_storage\<close>, as far as the program touches it: the family tag, the port
  field (\<open>sin_port\<close> and \<open>sin6_port\<close> share bytes 2 and 3 of the structure; kept as the two
  bytes in memory order) and the two address fields, which do not overlap.
\<close>

record sockaddr_storage =
  ss_family :: "16 word"
  sa_port :: "byte list"
  sin_addr :: "byte list"
  sin6_addr :: "byte list"

text \<open>The calls the process makes into the C library's resolver and the kernel, in order.\<close>

datatype call =
    InetPton "16 word" string
  | InetNtop "16 word" "byte list"
  | SysSocket "16 word"
  | SysConnect nat sockaddr_storage
  | SysSend nat "byte list"
  | SysWrite nat "byte list"
  | SysRecv nat nat
  | SysClose nat

text \<open>
  What the process has produced so far. \<open>stdout_stdio\<close> is the text handed to \<open>printf\<close>
  (buffered by stdio), \<open>stdout_fd\<close> the bytes handed to \<open>write(STDOUT_FILENO, ...)\<close>
  directly; their interleaving on the descriptor depends on the buffering mode and is not
  modelled. \<open>exit\<close> flushes stdio's buffer; a process killed by a signal does not, so
  in a killed run the descriptor has received a prefix of \<open>stdout_stdio\<close>. \<open>wire\<close>
  holds the bytes the socket has accepted for transmission.
\<close>

record world =
  stdout_stdio :: string
  stdout_fd :: "byte list"
  stderr :: string
  wire :: "byte list"
  calls :: "call list"

text \<open>
  The answers of the environment. A failing system call (return value \<open>-1\<close>) is \<open>Inl errno\<close>
  or \<open>Some errno\<close>. \<open>inet_pton\<close> answers \<open>Some\<close> binary address exactly when the C function
  returns 1. \<open>wild_write\<close> is what reaches the output descriptor when \<open>write\<close> is called with
  a byte count beyond the buffer.
\<close>

record env =
  getopt_permute :: bool
  inet_pton :: "16 word \<Rightarrow> string \<Rightarrow> byte list option"
  inet_ntop :: "16 word \<Rightarrow> byte list \<Rightarrow> nat + string"
  sys_socket :: "nat + nat"
  sys_connect :: "nat option"
  sys_send :: "nat + nat"
  sys_write :: "nat + nat"
  sys_recv :: "nat + byte list"
  sys_close :: "nat option"
  wild_write :: "byte list"
  strerror :: "nat \<Rightarrow> string"

text \<open>
  The places where the program calls \<open>exit\<close> (or returns from \<open>main\<close>). A run ends there
  with an exit status, or it is killed by a signal, which leaves no exit status.
\<close>

datatype exit_site =
    UsageExit
  | PortParseErrno
  | InvalidAddress
  | SocketCreateFailed
  | NtopFailed
  | InternalError
  | ConnectFailed
  | CloseFailed
  | MainReturn

datatype 'a result = Exited exit_site nat world | Killed nat world | Ret 'a world

definition EXIT_SUCCESS :: nat where "EXIT_SUCCESS = 0"
definition EXIT_FAILURE :: nat where "EXIT_FAILURE = 1"
definition LINE_LENGTH :: nat where "LINE_LENGTH = 1024"

text \<open>Linux's numbers for the broken-pipe error and its signal.\<close>

definition EPIPE :: nat where "EPIPE = 32"
definition SIGPIPE :: nat where "SIGPIPE = 13"

definition bytes_of :: "string \<Rightarrow> byte list" where
  "bytes_of s = map of_char s"

subsection \<open>Text output\<close>

definition nl :: string where
  "nl = [CHR 0x0A]"

definition digit_char :: "nat \<Rightarrow> char" where
  "digit_char d = char_of (48 + d)"

text \<open>The decimal rendering of \<open>printf\<close>'s \<open>%u\<close>, \<open>%hu\<close>, \<open>%zu\<close> and (for \<open>show_int\<close>) \<open>%d\<close>, \<open>%zd\<close>.\<close>

function show_nat :: "nat \<Rightarrow> string" where
  "show_nat n = (if n < 10 then [digit_char n] else show_nat (n div 10) @ [digit_char (n mod 10)])"
  by pat_completeness auto
termination
  by (relation "measure (\<lambda>n. n)") auto

declare show_nat.simps [simp del]

definition show_int :: "int \<Rightarrow> string" where
  "show_int i = (if i < 0 then CHR ''-'' # show_nat (nat (- i)) else show_nat (nat i))"

definition perror :: "env \<Rightarrow> string \<Rightarrow> nat \<Rightarrow> world \<Rightarrow> world" where
  "perror E msg errno w = w\<lparr>stderr := stderr w @ msg @ '': '' @ strerror E errno @ nl\<rparr>"

text \<open>\<open>usage\<close> never returns: it writes to the error stream and exits with the given status.\<close>

definition usage :: "string \<Rightarrow> nat \<Rightarrow> string option \<Rightarrow> world \<Rightarrow> 'a result" where
  "usage program_name exit_code message w =
     (let w1 = (case message of None \<Rightarrow> w | Some m \<Rightarrow> w\<lparr>stderr := stderr w @ m @ nl\<rparr>);
          w2 = w1\<lparr>stderr := stderr w1 @ ''Usage: '' @ program_name
                               @ '' [-h] <ip address> <port> <command>'' @ nl\<rparr>;
          w3 = w2\<lparr>stderr := stderr w2 @ ''Options:'' @ nl\<rparr>;
          w4 = w3\<lparr>stderr := stderr w3 @ '' -h Display this help message'' @ nl\<rparr>
      in Exited UsageExit exit_code w4)"

subsection \<open>The C library's \<open>strtoumax\<close>\<close>

text \<open>
  \<open>strtoumax(nptr, &endptr, 10)\<close> after ISO C (7.8.2.3 with 7.22.1.4), with a 64-bit
  \<open>uintmax_t\<close>: white space is skipped, one sign is optional, then the longest run of
  decimal digits is converted. Without a digit no conversion is performed: the value is 0
  and \<open>endptr\<close> is \<open>nptr\<close>. A value beyond \<open>UINTMAX_MAX\<close> gives \<open>UINTMAX_MAX\<close> and
  \<open>errno = ERANGE\<close>; a minus sign negates the value in the unsigned type. The result is the
  value, the text \<open>endptr\<close> points at, and \<open>errno\<close> (0 when it is left untouched). A string is
  the characters before its terminating NUL, so \<open>*endptr == 0\<close> is \<open>endptr = []\<close>.
\<close>

definition isspace :: "char \<Rightarrow> bool" where
  "isspace c = (c \<in> set [CHR 0x20, CHR 0x09, CHR 0x0A, CHR 0x0B, CHR 0x0C, CHR 0x0D])"

definition isdigit :: "char \<Rightarrow> bool" where
  "isdigit c = (48 \<le> (of_char c :: nat) \<and> (of_char c :: nat) \<le> 57)"

fun decimal_value :: "nat \<Rightarrow> string \<Rightarrow> nat" where
  "decimal_value acc [] = acc"
| "decimal_value acc (c # cs) = decimal_value (acc * 10 + (of_char c - 48)) cs"

definition UINTMAX_MAX :: nat where "UINTMAX_MAX = 2 ^ 64 - 1"
definition UINT16_MAX :: nat where "UINT16_MAX = 65535"
definition ERANGE :: nat where "ERANGE = 34"

definition strtoumax :: "string \<Rightarrow> 64 word \<times> string \<times> nat" where
  "strtoumax nptr =
     (let s1 = dropWhile isspace nptr;
          neg = (case s1 of [] \<Rightarrow> False | c # _ \<Rightarrow> c = CHR ''-'');
          s2 = (case s1 of [] \<Rightarrow> s1 | c # t \<Rightarrow> if c = CHR ''-'' \<or> c = CHR ''+'' then t else s1);
          ds = takeWhile isdigit s2;
          v = decimal_value 0 ds
      in if ds = [] then (0, nptr, 0)
         else if v > UINTMAX_MAX then (of_nat UINTMAX_MAX, dropWhile isdigit s2, ERANGE)
         else (if neg then - of_nat v else of_nat v, dropWhile isdigit s2, 0))"

subsection \<open>Argument parsing\<close>

definition parse_in_port_t :: "env \<Rightarrow> string \<Rightarrow> string \<Rightarrow> world \<Rightarrow> 16 word result" where
  "parse_in_port_t E binary_name port_str w =
     (case strtoumax port_str of (parsed_value, endptr, errno) \<Rightarrow>
        if errno \<noteq> 0
        then Exited PortParseErrno EXIT_FAILURE (perror E ''Error parsing in_port_t.'' errno w)
        else if endptr \<noteq> []
        then usage binary_name EXIT_FAILURE (Some ''Invalid characters in input.'') w
        else if unat parsed_value > UINT16_MAX
        then usage binary_name EXIT_FAILURE (Some ''in_port_t value out of range.'') w
        else Ret (ucast parsed_value) w)"

text \<open>
  The first call of \<open>getopt(argc, argv, optstring)\<close> with \<open>opterr = 0\<close>, after POSIX; with
  \<open>permute\<close> as glibc does it by default (it looks past leading operands for the first
  option element). Every branch of the program's \<open>switch\<close> ends in \<open>usage\<close>, so no second
  call is ever made. \<open>g_ret = None\<close> is the return value \<open>-1\<close>.
\<close>

record getopt_state =
  g_ret :: "char option"
  g_optind :: nat
  g_optopt :: char
  g_argv :: "string list"

definition is_option_element :: "string \<Rightarrow> bool" where
  "is_option_element a = (case a of c # d # _ \<Rightarrow> c = CHR ''-'' | _ \<Rightarrow> False)"

fun takes_arg :: "string \<Rightarrow> char \<Rightarrow> bool option" where
  "takes_arg [] c = None"
| "takes_arg (x # xs) c =
     (if x = c \<and> c \<noteq> CHR '':'' then Some (case xs of [] \<Rightarrow> False | y # _ \<Rightarrow> y = CHR '':'')
      else takes_arg xs c)"

definition getopt_first :: "bool \<Rightarrow> string list \<Rightarrow> string \<Rightarrow> getopt_state" where
  "getopt_first permute argv optstring =
     (let args = tl argv;
          skipped = (if permute then takeWhile (\<lambda>a. \<not> is_option_element a) args else []);
          rest = (if permute then dropWhile (\<lambda>a. \<not> is_option_element a) args else args);
          fin = \<lparr>g_ret = None, g_optind = 1, g_optopt = CHR ''?'', g_argv = argv\<rparr>
      in case rest of
           [] \<Rightarrow> fin
         | a # following \<Rightarrow>
             if \<not> is_option_element a then fin
             else if a = ''--''
             then fin\<lparr>g_optind := 2, g_argv := take 1 argv @ [a] @ skipped @ following\<rparr>
             else (let c = a ! 1 in
               case takes_arg optstring c of
                 None \<Rightarrow> fin\<lparr>g_ret := Some CHR ''?'', g_optopt := c\<rparr>
               | Some False \<Rightarrow> fin\<lparr>g_ret := Some c\<rparr>
               | Some True \<Rightarrow>
                   if length a > 2 \<or> following \<noteq> [] then fin\<lparr>g_ret := Some c\<rparr>
                   else fin\<lparr>g_ret := Some CHR ''?'', g_optopt := c\<rparr>))"

text \<open>\<open>argv[i]\<close>, with the null pointer at \<open>argv[argc]\<close>.\<close>

definition arg :: "string list \<Rightarrow> nat \<Rightarrow> string option" where
  "arg argv i = (if i < length argv then Some (argv ! i) else None)"

text \<open>\<open>argv[0]\<close> as \<open>%s\<close> prints it (glibc prints \<open>(null)\<close> for a null pointer).\<close>

definition progname :: "string list \<Rightarrow> string" where
  "progname argv = (case argv of [] \<Rightarrow> ''(null)'' | p # _ \<Rightarrow> p)"

definition UNKNOWN_OPTION_MESSAGE_LEN :: nat where "UNKNOWN_OPTION_MESSAGE_LEN = 24"

definition parse_arguments ::
  "env \<Rightarrow> string list \<Rightarrow> world \<Rightarrow> (string option \<times> string option \<times> string option) result" where
  "parse_arguments E argv w =
     (let argc = length argv;
          g = getopt_first (getopt_permute E) argv ''h:''
      in case g_ret g of
           Some opt \<Rightarrow>
             if opt = CHR ''h'' then usage (progname argv) EXIT_SUCCESS None w
             else if opt = CHR ''?''
             then (let message = take (UNKNOWN_OPTION_MESSAGE_LEN - 1)
                                   (''Unknown option '' @ [CHR 0x27, CHR ''-'', g_optopt g, CHR 0x27, CHR ''.''])
                   in usage (progname argv) EXIT_FAILURE (Some message) w)
             else usage (progname argv) EXIT_FAILURE None w
         | None \<Rightarrow>
             if argc < 4 then usage (progname argv) EXIT_FAILURE (Some ''Error: Too few arguments.'') w
             else if argc > 4 then usage (progname argv) EXIT_FAILURE (Some ''Error: Too many arguments.'') w
             else Ret (arg (g_argv g) (g_optind g),
                       arg (g_argv g) (g_optind g + 1),
                       arg (g_argv g) (g_optind g + 2)) w)"

text \<open>
  \<open>handle_arguments\<close> stores the port through its last parameter; here it returns it,
  together with the two strings it has found to be non-null.
\<close>

definition handle_arguments ::
  "env \<Rightarrow> string \<Rightarrow> string option \<Rightarrow> string option \<Rightarrow> string option \<Rightarrow> world
     \<Rightarrow> (string \<times> string \<times> 16 word) result" where
  "handle_arguments E binary_name ip_address port_str command w =
     (case ip_address of
        None \<Rightarrow> usage binary_name EXIT_FAILURE (Some ''The ip address is required.'') w
      | Some ip \<Rightarrow>
     (case port_str of
        None \<Rightarrow> usage binary_name EXIT_FAILURE (Some ''The port is required.'') w
      | Some ps \<Rightarrow>
     (case command of
        None \<Rightarrow> usage binary_name EXIT_FAILURE (Some ''The command is required.'') w
      | Some cmd \<Rightarrow>
     (case parse_in_port_t E binary_name ps w of
        Exited s c w' \<Rightarrow> Exited s c w'
      | Killed g w' \<Rightarrow> Killed g w'
      | Ret port w' \<Rightarrow> Ret (ip, cmd, port) w'))))"


subsection \<open>Network handling\<close>

text \<open>
  The values of \<open>AF_INET\<close> and \<open>AF_INET6\<close> come from the system headers (here: Linux), as
  does \<open>sizeof(struct sockaddr_storage)\<close>.
\<close>

definition AF_INET :: "16 word" where "AF_INET = 2"
definition AF_INET6 :: "16 word" where "AF_INET6 = 10"
definition SIZEOF_SOCKADDR_STORAGE :: nat where "SIZEOF_SOCKADDR_STORAGE = 128"

text \<open>The structure after \<open>memset(addr, 0, sizeof(*addr))\<close>.\<close>

definition zeroed_storage :: sockaddr_storage where
  "zeroed_storage = \<lparr>ss_family = 0, sa_port = [0, 0],
                      sin_addr = replicate 4 0, sin6_addr = replicate 16 0\<rparr>"

definition convert_address :: "env \<Rightarrow> string \<Rightarrow> world \<Rightarrow> sockaddr_storage result" where
  "convert_address E address w =
     (let addr = zeroed_storage;
          w1 = w\<lparr>calls := calls w @ [InetPton AF_INET address]\<rparr>
      in case inet_pton E AF_INET address of
           Some a \<Rightarrow>
             Ret (addr\<lparr>sin_addr := a, ss_family := AF_INET\<rparr>)
                 (w1\<lparr>stdout_stdio := stdout_stdio w1 @ ''IPv4 found'' @ nl\<rparr>)
         | None \<Rightarrow>
             (let w2 = w1\<lparr>calls := calls w1 @ [InetPton AF_INET6 address]\<rparr>
              in case inet_pton E AF_INET6 address of
                   Some a \<Rightarrow> Ret (addr\<lparr>sin6_addr := a, ss_family := AF_INET6\<rparr>) w2
                 | None \<Rightarrow>
                     Exited InvalidAddress EXIT_FAILURE
                       (w2\<lparr>stderr := stderr w2 @ address
                                        @ '' is not an IPv4 or IPv6 address'' @ nl\<rparr>)))"

definition socket_create :: "env \<Rightarrow> 16 word \<Rightarrow> world \<Rightarrow> nat result" where
  "socket_create E domain w =
     (let w1 = w\<lparr>calls := calls w @ [SysSocket domain]\<rparr>
      in case sys_socket E of
           Inl e \<Rightarrow> Exited SocketCreateFailed EXIT_FAILURE
                      (w1\<lparr>stderr := stderr w1 @ ''Socket creation failed'' @ nl\<rparr>)
         | Inr sockfd \<Rightarrow> Ret sockfd w1)"

text \<open>\<open>htons\<close>: the port as its two bytes in network order.\<close>

definition htons :: "16 word \<Rightarrow> byte list" where
  "htons p = [ucast (drop_bit 8 p), ucast p]"

text \<open>
  \<open>socket_connect\<close> writes the port into the structure it is given; the updated structure
  is returned.
\<close>

definition socket_connect ::
  "env \<Rightarrow> nat \<Rightarrow> sockaddr_storage \<Rightarrow> 16 word \<Rightarrow> world \<Rightarrow> sockaddr_storage result" where
  "socket_connect E sockfd addr port w =
     (let src = (if ss_family addr = AF_INET then sin_addr addr else sin6_addr addr);
          w1 = w\<lparr>calls := calls w @ [InetNtop (ss_family addr) src]\<rparr>
      in case inet_ntop E (ss_family addr) src of
           Inl e \<Rightarrow> Exited NtopFailed EXIT_FAILURE (perror E ''inet_ntop'' e w1)
         | Inr addr_str \<Rightarrow>
             (let w2 = w1\<lparr>stdout_stdio := stdout_stdio w1 @ ''Connecting to '' @ addr_str
                                             @ '':'' @ show_nat (unat port) @ nl\<rparr>;
                  net_port = htons port
              in case (if ss_family addr = AF_INET then Some (addr\<lparr>sa_port := net_port\<rparr>)
                       else if ss_family addr = AF_INET6 then Some (addr\<lparr>sa_port := net_port\<rparr>)
                       else None) of
                   None \<Rightarrow>
                     Exited InternalError EXIT_FAILURE
                       (w2\<lparr>stderr := stderr w2
                              @ ''Internal error: addr->ss_family must be AF_INET or AF_INET6, was: ''
                              @ show_nat (unat (ss_family addr)) @ nl\<rparr>)
                 | Some addr' \<Rightarrow>
                     (let w3 = w2\<lparr>stdout_stdio := stdout_stdio w2
                                     @ ''Sock fd: '' @ show_nat sockfd @ nl
                                     @ ''Addr: '' @ show_nat (unat (ss_family addr')) @ nl
                                     @ ''Size: '' @ show_nat SIZEOF_SOCKADDR_STORAGE\<rparr>;
                          w4 = w3\<lparr>calls := calls w3 @ [SysConnect sockfd addr']\<rparr>
                      in case sys_connect E of
                           Some e \<Rightarrow> Exited ConnectFailed EXIT_FAILURE (perror E ''connect'' e w4)
                         | None \<Rightarrow>
                             Ret addr' (w4\<lparr>stdout_stdio := stdout_stdio w4 @ ''Connected to: ''
                                             @ addr_str @ '':'' @ show_nat (unat port) @ nl\<rparr>))))"

definition socket_close :: "env \<Rightarrow> nat \<Rightarrow> world \<Rightarrow> unit result" where
  "socket_close E sockfd w =
     (let w1 = w\<lparr>calls := calls w @ [SysClose sockfd]\<rparr>
      in case sys_close E of
           Some e \<Rightarrow> Exited CloseFailed EXIT_FAILURE (perror E ''error closing socket'' e w1)
         | None \<Rightarrow> Ret () w1)"

text \<open>
  \<open>write_to_socket\<close>: \<open>strlen\<close> (whose result always fits \<open>size_t\<close>, so it is a \<open>nat\<close>), the
  narrowing cast to \<open>uint8_t\<close>, one \<open>send\<close> of the length byte and one \<open>write\<close> of the
  command. Neither return value is looked at. The kernel accepts a prefix of what it is
  offered (\<open>Inr n\<close>) or nothing (\<open>Inl errno\<close>).

  Neither call asks for \<open>MSG_NOSIGNAL\<close> and the program installs no handler, so a
  transmission on a broken connection (\<open>EPIPE\<close>) raises \<open>SIGPIPE\<close>, which kills the process
  inside the call. On a connection that has just been established, a reset by the peer is
  reported to the first transmission, the \<open>send\<close>, as \<open>ECONNRESET\<close> without a signal; the
  broken pipe is met by the transmission after it, the \<open>write\<close>, and that is where the
  kill is modelled. An \<open>EPIPE\<close> answer to the \<open>send\<close> itself is treated like its other
  failures here; what is stated about a run after its \<open>send\<close> is stated for the other
  answers.
\<close>

definition accepted :: "nat + nat \<Rightarrow> byte list \<Rightarrow> byte list" where
  "accepted r bs = (case r of Inl e \<Rightarrow> [] | Inr n \<Rightarrow> take n bs)"

definition write_to_socket :: "env \<Rightarrow> nat \<Rightarrow> string \<Rightarrow> world \<Rightarrow> unit result" where
  "write_to_socket E sockfd command w =
     (let command_len = length command;
          size = (of_nat command_len :: byte);
          w1 = w\<lparr>calls := calls w @ [SysSend sockfd [size]],
                 wire := wire w @ accepted (sys_send E) [size]\<rparr>;
          w2 = w1\<lparr>calls := calls w1 @ [SysWrite sockfd (bytes_of command)],
                  wire := wire w1 @ accepted (sys_write E) (bytes_of command)\<rparr>
      in if sys_write E = Inl EPIPE then Killed SIGPIPE w2 else Ret () w2)"

text \<open>
  \<open>read_from_socket\<close>: one \<open>recv\<close> into a buffer of \<open>LINE_LENGTH\<close> bytes, whose return value
  is printed and then used, cast to \<open>size_t\<close>, as the count of a \<open>write\<close> to the output
  descriptor. After a failed \<open>recv\<close> that count is \<open>(size_t)-1\<close>, far beyond the buffer.
\<close>

definition read_from_socket :: "env \<Rightarrow> nat \<Rightarrow> world \<Rightarrow> unit result" where
  "read_from_socket E sockfd w =
     (let w1 = w\<lparr>calls := calls w @ [SysRecv sockfd LINE_LENGTH]\<rparr>;
          bytes_read = (case sys_recv E of Inl e \<Rightarrow> - 1
                        | Inr d \<Rightarrow> int (length (take LINE_LENGTH d)));
          w2 = w1\<lparr>stdout_stdio := stdout_stdio w1 @ ''Read bytes: '' @ show_int bytes_read @ nl\<rparr>;
          w3 = w2\<lparr>stdout_fd := stdout_fd w2
                     @ (case sys_recv E of Inl e \<Rightarrow> wild_write E | Inr d \<Rightarrow> take LINE_LENGTH d)\<rparr>
      in socket_close E sockfd w3)"

subsection \<open>The process\<close>

definition and_then :: "'a result \<Rightarrow> ('a \<Rightarrow> world \<Rightarrow> 'b result) \<Rightarrow> 'b result" where
  "and_then r f =
     (case r of Exited s c w \<Rightarrow> Exited s c w | Killed g w \<Rightarrow> Killed g w | Ret a w \<Rightarrow> f a w)"

definition start :: world where
  "start = \<lparr>stdout_stdio = [], stdout_fd = [], stderr = [], wire = [], calls = []\<rparr>"

definition main :: "env \<Rightarrow> string list \<Rightarrow> unit result" where
  "main E argv =
     and_then (parse_arguments E argv start) (\<lambda>(ip_address, port_str, command) w1.
     and_then (handle_arguments E (progname argv) ip_address port_str command w1) (\<lambda>(ip, cmd, port) w2.
     and_then (convert_address E ip w2) (\<lambda>addr w3.
     and_then (socket_create E (ss_family addr) w3) (\<lambda>sockfd w4.
     and_then (socket_connect E sockfd addr port w4) (\<lambda>addr' w5.
     and_then (write_to_socket E sockfd cmd w5) (\<lambda>_ w6.
     and_then (read_from_socket E sockfd w6) (\<lambda>_ w7.
     Exited MainReturn 0 w7)))))))"

text \<open>
  What a result says: the status passed to \<open>exit\<close>, the place of that \<open>exit\<close>, the signal
  that killed the process, the value returned, and the world left behind.
\<close>

fun exit_status :: "'a result \<Rightarrow> nat option" where
  "exit_status (Exited s c w) = Some c"
| "exit_status (Killed g w) = None"
| "exit_status (Ret a w) = None"

fun exit_at :: "'a result \<Rightarrow> exit_site option" where
  "exit_at (Exited s c w) = Some s"
| "exit_at (Killed g w) = None"
| "exit_at (Ret a w) = None"

fun killed_by :: "'a result \<Rightarrow> nat option" where
  "killed_by (Exited s c w) = None"
| "killed_by (Killed g w) = Some g"
| "killed_by (Ret a w) = None"

fun returned :: "'a result \<Rightarrow> 'a option" where
  "returned (Exited s c w) = None"
| "returned (Killed g w) = None"
| "returned (Ret a w) = Some a"

fun world_of :: "'a result \<Rightarrow> world" where
  "world_of (Exited s c w) = w"
| "world_of (Killed g w) = w"
| "world_of (Ret a w) = w"


text \<open>Whether a run has called \<open>socket\<close>, \<open>send\<close>, \<open>recv\<close>, \<open>close\<close>.\<close>

fun is_socket :: "call \<Rightarrow> bool" where
  "is_socket (SysSocket domain) = True"
| "is_socket _ = False"

fun is_send :: "call \<Rightarrow> bool" where
  "is_send (SysSend fd bs) = True"
| "is_send _ = False"

fun is_recv :: "call \<Rightarrow> bool" where
  "is_recv (SysRecv fd n) = True"
| "is_recv _ = False"

fun is_close :: "call \<Rightarrow> bool" where
  "is_close (SysClose fd) = True"
| "is_close _ = False"

definition socket_called :: "world \<Rightarrow> bool" where
  "socket_called w = list_ex is_socket (calls w)"

definition send_called :: "world \<Rightarrow> bool" where
  "send_called w = list_ex is_send (calls w)"

definition recv_called :: "world \<Rightarrow> bool" where
  "recv_called w = list_ex is_recv (calls w)"

definition close_called :: "world \<Rightarrow> bool" where
  "close_called w = list_ex is_close (calls w)"

subsection \<open>A sample environment\<close>

text \<open>
  A host on which both loopback literals resolve, the socket is descriptor 3, the kernel
  accepts what it is offered and the peer answers \<open>PONG\<close>. The error numbers are Linux's:
  9 \<open>EBADF\<close>, 24 \<open>EMFILE\<close>, 32 \<open>EPIPE\<close>, 34 \<open>ERANGE\<close>, 97 \<open>EAFNOSUPPORT\<close>,
  104 \<open>ECONNRESET\<close>, 111 \<open>ECONNREFUSED\<close>.
\<close>

definition loopback :: env where
  "loopback =
     \<lparr>getopt_permute = True,
      inet_pton = (\<lambda>f s. if f = AF_INET \<and> s = ''127.0.0.1'' then Some [127, 0, 0, 1]
                         else if f = AF_INET6 \<and> s = ''::1'' then Some (replicate 15 0 @ [1])
                         else None),
      inet_ntop = (\<lambda>f a. if f = AF_INET \<and> a = [127, 0, 0, 1] then Inr ''127.0.0.1''
                         else if f = AF_INET6 \<and> a = replicate 15 0 @ [1] then Inr ''::1''
                         else Inl 97),
      sys_socket = Inr 3,
      sys_connect = None,
      sys_send = Inr 1,
      sys_write = Inr 4,
      sys_recv = Inr (bytes_of ''PONG''),
      sys_close = None,
      wild_write = [],
      strerror = (\<lambda>e. if e = 9 then ''Bad file descriptor''
                      else if e = 34 then ''Numerical result out of range''
                      else if e = 97 then ''Address family not supported by protocol''
                      else if e = 104 then ''Connection reset by peer''
                      else if e = 111 then ''Connection refused''
                      else ''Unknown error'')\<rparr>"

section \<open>The framing of the command\<close>

lemma length_byte_unat: "unat (of_nat n :: byte) = n mod 256"
  by (simp add: unat_of_nat)

lemma bytes_of_length: "length (bytes_of s) = length s"
  by (simp add: bytes_of_def)

lemma unat_of_char: "unat (of_char c :: byte) = of_char c"
proof -
  have "(of_char c :: byte) = of_nat (of_char c)"
    by (simp add: of_nat_of_char)
  then have "unat (of_char c :: byte) = (of_char c :: nat) mod 256"
    by (simp only: length_byte_unat)
  moreover have "(of_char c :: nat) < 256"
    by (rule nat_of_char_less_256)
  ultimately show ?thesis by simp
qed

lemma bytes_of_chars: "map (\<lambda>b. char_of (unat b)) (bytes_of s) = s"
  by (induction s) (simp_all add: bytes_of_def unat_of_char)

lemma write_to_socket_returns: "exit_status (write_to_socket E sockfd command w) = None"
  by (simp add: write_to_socket_def Let_def)

lemma write_to_socket_returned:
  "returned (write_to_socket E sockfd command w) =
     (if sys_write E = Inl EPIPE then None else Some ())"
  by (simp add: write_to_socket_def Let_def)

lemma write_to_socket_killed_by:
  "killed_by (write_to_socket E sockfd command w) =
     (if sys_write E = Inl EPIPE then Some SIGPIPE else None)"
  by (simp add: write_to_socket_def Let_def)

lemma write_to_socket_calls:
  "calls (world_of (write_to_socket E sockfd command w)) =
     calls w @ [SysSend sockfd [of_nat (length command)], SysWrite sockfd (bytes_of command)]"
  by (simp add: write_to_socket_def Let_def)

lemma write_to_socket_wire:
  "wire (world_of (write_to_socket E sockfd command w)) =
     wire w @ accepted (sys_send E) [of_nat (length command)]
            @ accepted (sys_write E) (bytes_of command)"
  by (simp add: write_to_socket_def Let_def)

lemma write_to_socket_wire_full:
  assumes "sys_send E = Inr 1" and "sys_write E = Inr (length command)"
  shows "wire (world_of (write_to_socket E sockfd command w)) =
           wire w @ of_nat (length command) # bytes_of command"
  using assms by (simp add: write_to_socket_wire accepted_def bytes_of_length)

text \<open>
  C1. For a command of length \<open>L \<le> 255\<close>, \<open>write_to_socket\<close> offers the socket exactly two
  transmissions: one byte whose unsigned value is \<open>L\<close>, then \<open>L\<close> bytes that are the command's
  characters unchanged. When the kernel accepts both in full, exactly these \<open>1 + L\<close> bytes
  are put on the wire; for the empty command that is the single byte \<open>0x00\<close>.
\<close>

theorem write_to_socket_frame:
  assumes "length command \<le> 255"
  shows "calls (world_of (write_to_socket E sockfd command w)) =
           calls w @ [SysSend sockfd [of_nat (length command)], SysWrite sockfd (bytes_of command)]
       \<and> unat (of_nat (length command) :: byte) = length command
       \<and> length (bytes_of command) = length command
       \<and> map (\<lambda>b. char_of (unat b)) (bytes_of command) = command
       \<and> (sys_send E = Inr 1 \<and> sys_write E = Inr (length command) \<longrightarrow>
            wire (world_of (write_to_socket E sockfd command w)) =
              wire w @ of_nat (length command) # bytes_of command
          \<and> length (wire (world_of (write_to_socket E sockfd command w))) =
              length (wire w) + (1 + length command))
       \<and> (sys_send E = Inr 1 \<and> command = [] \<longrightarrow>
            wire (world_of (write_to_socket E sockfd command w)) = wire w @ [0])"
proof -
  have "unat (of_nat (length command) :: byte) = length command"
    using assms by (simp add: length_byte_unat)
  moreover have "sys_send E = Inr 1 \<and> command = [] \<longrightarrow>
      wire (world_of (write_to_socket E sockfd command w)) = wire w @ [0]"
    by (simp add: write_to_socket_wire accepted_def bytes_of_def split: sum.splits)
  ultimately show ?thesis
    by (simp add: write_to_socket_calls write_to_socket_wire_full bytes_of_length bytes_of_chars)
qed

theorem write_to_socket_frame_witness:
  "length ''PING'' \<le> 255
   \<and> sys_send loopback = Inr 1 \<and> sys_write loopback = Inr (length ''PING'')
   \<and> calls (world_of (write_to_socket loopback 3 ''PING'' start)) =
       [SysSend 3 [4], SysWrite 3 [80, 73, 78, 71]]
   \<and> wire (world_of (write_to_socket loopback 3 ''PING'' start)) = [4, 80, 73, 78, 71]
   \<and> wire (world_of (write_to_socket (loopback\<lparr>sys_write := Inr 0\<rparr>) 3 [] start)) = [0]"
  using write_to_socket_frame [of "''PING''" loopback 3 start]
        write_to_socket_frame [of "[]" "loopback\<lparr>sys_write := Inr 0\<rparr>" 3 start]
  by (simp add: loopback_def start_def bytes_of_def)

text \<open>
  C2. A command longer than 255 bytes is not rejected: \<open>write_to_socket\<close> never exits, the
  length byte it sends is the length reduced modulo 256 (so it is smaller than the real
  length), and the whole command is still written. It returns to its caller unless a
  transmission meets a broken pipe, which kills the process.
\<close>

theorem write_to_socket_long_command:
  assumes "255 < length command"
  shows "exit_status (write_to_socket E sockfd command w) = None
       \<and> calls (world_of (write_to_socket E sockfd command w)) =
           calls w @ [SysSend sockfd [of_nat (length command)], SysWrite sockfd (bytes_of command)]
       \<and> unat (of_nat (length command) :: byte) = length command mod 256
       \<and> unat (of_nat (length command) :: byte) < length command
       \<and> length (bytes_of command) = length command
       \<and> map (\<lambda>b. char_of (unat b)) (bytes_of command) = command
       \<and> (sys_send E = Inr 1 \<and> sys_write E = Inr (length command) \<longrightarrow>
            wire (world_of (write_to_socket E sockfd command w)) =
              wire w @ of_nat (length command) # bytes_of command)
       \<and> (sys_send E \<noteq> Inl EPIPE \<and> sys_write E \<noteq> Inl EPIPE \<longrightarrow>
            returned (write_to_socket E sockfd command w) = Some ())"
proof -
  have "unat (of_nat (length command) :: byte) < length command"
    using assms by (simp add: length_byte_unat)
  then show ?thesis
    by (simp add: write_to_socket_returns write_to_socket_returned write_to_socket_calls
                  write_to_socket_wire_full
                  bytes_of_length bytes_of_chars length_byte_unat)
qed

theorem write_to_socket_long_command_witness:
  "255 < length (replicate 300 CHR ''A'')
   \<and> sys_send loopback = Inr 1
   \<and> sys_write (loopback\<lparr>sys_write := Inr 300\<rparr>) = Inr (length (replicate 300 CHR ''A''))
   \<and> exit_status (write_to_socket (loopback\<lparr>sys_write := Inr 300\<rparr>) 3 (replicate 300 CHR ''A'') start) = None
   \<and> returned (write_to_socket (loopback\<lparr>sys_write := Inr 300\<rparr>) 3 (replicate 300 CHR ''A'') start) = Some ()
   \<and> unat (of_nat (length (replicate 300 CHR ''A'')) :: byte) = 44
   \<and> wire (world_of (write_to_socket (loopback\<lparr>sys_write := Inr 300\<rparr>) 3 (replicate 300 CHR ''A'') start)) =
       44 # replicate 300 65"
  using write_to_socket_long_command
          [of "replicate 300 CHR ''A''" "loopback\<lparr>sys_write := Inr 300\<rparr>" 3 start]
  by (simp add: loopback_def start_def bytes_of_def)


section \<open>Port validation\<close>

lemma isdigit_not_space: "isdigit c \<Longrightarrow> \<not> isspace c"
  by (auto simp: isdigit_def isspace_def)

lemma isdigit_not_sign: "isdigit c \<Longrightarrow> c \<noteq> CHR ''-'' \<and> c \<noteq> CHR ''+''"
  by (auto simp: isdigit_def)

lemma takeWhile_digits: "list_all isdigit ds \<Longrightarrow> takeWhile isdigit ds = ds"
  by (induction ds) simp_all

lemma dropWhile_digits: "list_all isdigit ds \<Longrightarrow> dropWhile isdigit ds = []"
  by (induction ds) simp_all

lemma dropWhile_spaces: "list_all isspace ws \<Longrightarrow> dropWhile isspace (ws @ s) = dropWhile isspace s"
  by (induction ws) simp_all

lemma strtoumax_empty: "strtoumax [] = (0, [], 0)"
  by (simp add: strtoumax_def)

text \<open>What \<open>strtoumax\<close> makes of a digit run, bare, or behind white space and a plus sign.\<close>

lemma strtoumax_space_digits:
  assumes "list_all isspace ws" and "ds \<noteq> []" and "list_all isdigit ds"
  shows "strtoumax (ws @ ds) =
           (if decimal_value 0 ds > UINTMAX_MAX then (of_nat UINTMAX_MAX, [], ERANGE)
            else (of_nat (decimal_value 0 ds), [], 0))"
proof -
  obtain c t where ds: "ds = c # t" using assms(2) by (cases ds) auto
  with assms(3) have c: "isdigit c" by simp
  have "dropWhile isspace (ws @ ds) = ds"
    using assms(1) c ds by (simp add: dropWhile_spaces isdigit_not_space)
  then show ?thesis
    using assms isdigit_not_sign [OF c] ds
    by (simp add: strtoumax_def Let_def takeWhile_digits dropWhile_digits)
qed

lemma strtoumax_digits:
  assumes "ds \<noteq> []" and "list_all isdigit ds"
  shows "strtoumax ds =
           (if decimal_value 0 ds > UINTMAX_MAX then (of_nat UINTMAX_MAX, [], ERANGE)
            else (of_nat (decimal_value 0 ds), [], 0))"
  using strtoumax_space_digits [of "[]" ds] assms by simp

lemma strtoumax_plus_digits:
  assumes "list_all isspace ws" and "ds \<noteq> []" and "list_all isdigit ds"
  shows "strtoumax (ws @ CHR ''+'' # ds) =
           (if decimal_value 0 ds > UINTMAX_MAX then (of_nat UINTMAX_MAX, [], ERANGE)
            else (of_nat (decimal_value 0 ds), [], 0))"
proof -
  have "\<not> isspace CHR ''+''" by (simp add: isspace_def)
  then have "dropWhile isspace (ws @ CHR ''+'' # ds) = CHR ''+'' # ds"
    using assms(1) by (simp add: dropWhile_spaces)
  then show ?thesis
    using assms by (simp add: strtoumax_def Let_def takeWhile_digits dropWhile_digits)
qed

text \<open>A text that starts with neither white space nor a sign and has a character that is no digit.\<close>

lemma strtoumax_stops_early:
  assumes "\<not> list_all isdigit s"
    and "case s of [] \<Rightarrow> False | c # _ \<Rightarrow> \<not> isspace c \<and> c \<noteq> CHR ''+'' \<and> c \<noteq> CHR ''-''"
    and "decimal_value 0 (takeWhile isdigit s) \<le> UINTMAX_MAX"
  shows "snd (snd (strtoumax s)) = 0 \<and> fst (snd (strtoumax s)) \<noteq> []"
proof -
  obtain c t where s: "s = c # t" using assms(2) by (cases s) auto
  have c: "\<not> isspace c" "c \<noteq> CHR ''+''" "c \<noteq> CHR ''-''" using assms(2) s by auto
  have rest: "dropWhile isdigit s \<noteq> []"
    using assms(1) by (simp add: list_all_iff) 
  have "dropWhile isspace s = s" using s c by simp
  then show ?thesis
    using s c rest assms(3)
    by (auto simp: strtoumax_def Let_def)
qed

lemma unat_u64: "n \<le> UINTMAX_MAX \<Longrightarrow> unat (of_nat n :: 64 word) = n"
  by (simp add: unat_of_nat UINTMAX_MAX_def)

lemma unat_u16: "n \<le> UINT16_MAX \<Longrightarrow> unat (of_nat n :: 16 word) = n"
  by (simp add: unat_of_nat UINT16_MAX_def)

lemma ucast_u64_u16: "ucast (of_nat n :: 64 word) = (of_nat n :: 16 word)"
proof -
  have "(65536::nat) dvd 18446744073709551616" by simp
  then have "n mod 18446744073709551616 mod 65536 = n mod 65536"
    by (rule mod_mod_cancel)
  then show ?thesis
    by (simp add: unsigned_of_nat take_bit_of_nat word_eq_iff_unsigned [where ?'a = nat]
                  unsigned_ucast_eq min_def take_bit_eq_mod)
qed

text \<open>The three outcomes of \<open>parse_in_port_t\<close> on a converted value.\<close>

lemma parse_in_port_t_converted:
  assumes "strtoumax s =
             (if v > UINTMAX_MAX then (of_nat UINTMAX_MAX, [], ERANGE) else (of_nat v, [], 0))"
  shows "parse_in_port_t E b s w =
           (if v > UINTMAX_MAX
            then Exited PortParseErrno EXIT_FAILURE (perror E ''Error parsing in_port_t.'' ERANGE w)
            else if v > UINT16_MAX
            then usage b EXIT_FAILURE (Some ''in_port_t value out of range.'') w
            else Ret (of_nat v) w)"
  using assms
  by (simp add: parse_in_port_t_def unat_u64 ucast_u64_u16 ERANGE_def)

lemma parse_in_port_t_stops_early:
  assumes "snd (snd (strtoumax s)) = 0" and "fst (snd (strtoumax s)) \<noteq> []"
  shows "parse_in_port_t E b s w = usage b EXIT_FAILURE (Some ''Invalid characters in input.'') w"
proof -
  obtain v r e where "strtoumax s = (v, r, e)" by (cases "strtoumax s") auto
  with assms show ?thesis by (simp add: parse_in_port_t_def)
qed

lemma usage_exit_status: "exit_status (usage p c m w) = Some c"
  by (simp add: usage_def Let_def)

lemma usage_stderr:
  "stderr (world_of (usage p c (Some m) w)) =
     stderr w @ m @ nl @ ''Usage: '' @ p @ '' [-h] <ip address> <port> <command>'' @ nl
       @ ''Options:'' @ nl @ '' -h Display this help message'' @ nl"
  by (simp add: usage_def Let_def)

lemma usage_not_Ret: "Ret x w' \<noteq> usage p c m w"
  by (simp add: usage_def Let_def)

lemma usage_not_errno: "Exited PortParseErrno c' w' \<noteq> usage p c m w"
  by (simp add: usage_def Let_def)

lemma usage_message_inj:
  "((usage p c (Some m) w :: 'a result) = usage p c (Some m') w) = (m = m')"
proof
  assume "(usage p c (Some m) w :: 'a result) = usage p c (Some m') w"
  then have "stderr (world_of (usage p c (Some m) w :: 'a result)) =
             stderr (world_of (usage p c (Some m') w :: 'a result))"
    by (rule arg_cong [where f = "\<lambda>r. stderr (world_of r)"])
  then show "m = m'"
    by (simp only: usage_stderr same_append_eq append_same_eq)
next
  assume "m = m'"
  then show "(usage p c (Some m) w :: 'a result) = usage p c (Some m') w" by simp
qed

text \<open>The decimal text of a number is a digit run that denotes it.\<close>

lemma isdigit_digit_char: "d < 10 \<Longrightarrow> isdigit (digit_char d)"
  by (simp add: isdigit_def digit_char_def)

lemma of_char_digit_char: "d < 10 \<Longrightarrow> (of_char (digit_char d) :: nat) = 48 + d"
  by (simp add: digit_char_def)

lemma decimal_value_snoc:
  "decimal_value acc (ds @ [c]) = decimal_value acc ds * 10 + (of_char c - 48)"
  by (induction ds arbitrary: acc) simp_all

lemma show_nat_nonempty: "show_nat n \<noteq> []"
  by (subst show_nat.simps) simp

lemma show_nat_digits: "list_all isdigit (show_nat n)"
proof (induction n rule: show_nat.induct)
  case (1 n)
  show ?case
  proof (cases "n < 10")
    case True
    then show ?thesis by (subst show_nat.simps) (simp add: isdigit_digit_char)
  next
    case False
    with "1" show ?thesis by (subst show_nat.simps) (simp add: isdigit_digit_char)
  qed
qed

lemma decimal_value_show_nat: "decimal_value 0 (show_nat n) = n"
proof (induction n rule: show_nat.induct)
  case (1 n)
  show ?case
  proof (cases "n < 10")
    case True
    then show ?thesis by (subst show_nat.simps) (simp add: of_char_digit_char)
  next
    case False
    with "1" show ?thesis
      by (subst show_nat.simps) (simp add: decimal_value_snoc of_char_digit_char)
  qed
qed

text \<open>
  C7, as the program has it. A non-empty run of decimal digits that denotes \<open>p \<le> 65535\<close> is
  accepted and yields \<open>p\<close> (so is the decimal text of every such \<open>p\<close>); one that denotes a
  value above 65535 and at most \<open>2^64 - 1\<close> fails with the usage error
  \<open>in_port_t value out of range.\<close>; one beyond \<open>2^64 - 1\<close> makes \<open>strtoumax\<close> report \<open>ERANGE\<close>
  and fails through \<open>perror\<close>, without usage text. A text that starts with neither white
  space nor a sign, contains a character that is no digit, and whose leading digits denote
  at most \<open>2^64 - 1\<close>, fails with the usage error \<open>Invalid characters in input.\<close>. Every one
  of these failures exits with status 1.
\<close>

theorem parse_in_port_t_decimal:
  "(ok \<noteq> [] \<and> list_all isdigit ok \<and> decimal_value 0 ok \<le> UINT16_MAX \<longrightarrow>
      parse_in_port_t E b ok w = Ret (of_nat (decimal_value 0 ok)) w
    \<and> unat (of_nat (decimal_value 0 ok) :: 16 word) = decimal_value 0 ok)
 \<and> (p \<le> UINT16_MAX \<longrightarrow>
      parse_in_port_t E b (show_nat p) w = Ret (of_nat p) w \<and> unat (of_nat p :: 16 word) = p)
 \<and> (big \<noteq> [] \<and> list_all isdigit big \<and> UINT16_MAX < decimal_value 0 big
      \<and> decimal_value 0 big \<le> UINTMAX_MAX \<longrightarrow>
      parse_in_port_t E b big w = usage b EXIT_FAILURE (Some ''in_port_t value out of range.'') w
    \<and> exit_status (parse_in_port_t E b big w) = Some 1)
 \<and> (huge \<noteq> [] \<and> list_all isdigit huge \<and> UINTMAX_MAX < decimal_value 0 huge \<longrightarrow>
      parse_in_port_t E b huge w =
        Exited PortParseErrno EXIT_FAILURE (perror E ''Error parsing in_port_t.'' ERANGE w)
    \<and> exit_status (parse_in_port_t E b huge w) = Some 1)
 \<and> (\<not> list_all isdigit s
      \<and> (case s of [] \<Rightarrow> False | c # _ \<Rightarrow> \<not> isspace c \<and> c \<noteq> CHR ''+'' \<and> c \<noteq> CHR ''-'')
      \<and> decimal_value 0 (takeWhile isdigit s) \<le> UINTMAX_MAX \<longrightarrow>
      parse_in_port_t E b s w = usage b EXIT_FAILURE (Some ''Invalid characters in input.'') w
    \<and> exit_status (parse_in_port_t E b s w) = Some 1)"
proof -
  have small: "v \<le> UINT16_MAX \<Longrightarrow> \<not> UINTMAX_MAX < v" for v
    by (simp add: UINT16_MAX_def UINTMAX_MAX_def)
  have accept: "parse_in_port_t E b ds w = Ret (of_nat (decimal_value 0 ds)) w"
    if "ds \<noteq> []" "list_all isdigit ds" "decimal_value 0 ds \<le> UINT16_MAX" for ds
    using that small [OF that(3)]
    by (simp add: parse_in_port_t_converted [OF strtoumax_digits])
  have too_big: "parse_in_port_t E b big w =
                 usage b EXIT_FAILURE (Some ''in_port_t value out of range.'') w"
    if "big \<noteq> []" "list_all isdigit big" "UINT16_MAX < decimal_value 0 big"
       "decimal_value 0 big \<le> UINTMAX_MAX"
    using that by (simp add: parse_in_port_t_converted [OF strtoumax_digits])
  have overflow: "parse_in_port_t E b huge w =
                    Exited PortParseErrno EXIT_FAILURE
                      (perror E ''Error parsing in_port_t.'' ERANGE w)"
    if "huge \<noteq> []" "list_all isdigit huge" "UINTMAX_MAX < decimal_value 0 huge"
    using that by (simp add: parse_in_port_t_converted [OF strtoumax_digits])
  have invalid: "parse_in_port_t E b s w =
                   usage b EXIT_FAILURE (Some ''Invalid characters in input.'') w"
    if "\<not> list_all isdigit s"
       "case s of [] \<Rightarrow> False | c # _ \<Rightarrow> \<not> isspace c \<and> c \<noteq> CHR ''+'' \<and> c \<noteq> CHR ''-''"
       "decimal_value 0 (takeWhile isdigit s) \<le> UINTMAX_MAX"
    using strtoumax_stops_early [OF that] by (simp add: parse_in_port_t_stops_early)
  have rendered: "parse_in_port_t E b (show_nat p) w = Ret (of_nat p) w" if "p \<le> UINT16_MAX"
    using accept [of "show_nat p"] that
    by (simp add: show_nat_nonempty show_nat_digits decimal_value_show_nat)
  show ?thesis
    using accept too_big overflow invalid rendered
    by (simp add: unat_u16 usage_exit_status EXIT_FAILURE_def)
qed

theorem parse_in_port_t_decimal_witness:
  "parse_in_port_t loopback ''client'' ''9000'' start = Ret 9000 start
 \<and> parse_in_port_t loopback ''client'' (show_nat 65535) start = Ret 65535 start
 \<and> exit_status (parse_in_port_t loopback ''client'' ''70000'' start) = Some 1
 \<and> stderr (world_of (parse_in_port_t loopback ''client'' ''70000'' start)) =
      ''in_port_t value out of range.'' @ nl
      @ ''Usage: client [-h] <ip address> <port> <command>'' @ nl
      @ ''Options:'' @ nl @ '' -h Display this help message'' @ nl
 \<and> parse_in_port_t loopback ''client'' ''18446744073709551616'' start =
      Exited PortParseErrno 1
        (start\<lparr>stderr := ''Error parsing in_port_t.: Numerical result out of range'' @ nl\<rparr>)
 \<and> exit_status (parse_in_port_t loopback ''client'' ''80a'' start) = Some 1
 \<and> stderr (world_of (parse_in_port_t loopback ''client'' ''80a'' start)) =
      ''Invalid characters in input.'' @ nl
      @ ''Usage: client [-h] <ip address> <port> <command>'' @ nl
      @ ''Options:'' @ nl @ '' -h Display this help message'' @ nl"
  using parse_in_port_t_decimal
          [where ok = "''9000''" and E = loopback and b = "''client''" and w = start
             and p = 65535 and big = "''70000''" and huge = "''18446744073709551616''"
             and s = "''80a''"]
  by (simp add: isdigit_def isspace_def UINT16_MAX_def UINTMAX_MAX_def ERANGE_def EXIT_FAILURE_def
                usage_stderr usage_exit_status perror_def loopback_def start_def)

text \<open>
  C7 as the claim states it fails twice: \<open>+80\<close> contains a character that is no digit and is
  accepted as port 80, and the digits of \<open>2^64\<close> denote a value above 65535 but are not
  answered with the usage error \<open>in_port_t value out of range.\<close>.
\<close>

theorem parse_in_port_t_counterexample:
  "\<not> list_all isdigit ''+80''
 \<and> parse_in_port_t loopback ''client'' ''+80'' start = Ret 80 start
 \<and> list_all isdigit ''18446744073709551616''
 \<and> UINT16_MAX < decimal_value 0 ''18446744073709551616''
 \<and> parse_in_port_t loopback ''client'' ''18446744073709551616'' start \<noteq>
      usage ''client'' EXIT_FAILURE (Some ''in_port_t value out of range.'') start
 \<and> exit_at (parse_in_port_t loopback ''client'' ''18446744073709551616'' start) =
      Some PortParseErrno"
  by (simp add: parse_in_port_t_def strtoumax_def isdigit_def isspace_def UINT16_MAX_def
                UINTMAX_MAX_def ERANGE_def usage_def Let_def)

text \<open>
  C10. The empty port text is accepted as port 0. A digit run that denotes \<open>p \<le> 65535\<close> is
  accepted as \<open>p\<close> also behind white space, and behind white space and a plus sign, so
  \<open>+80\<close> and \<open> 80\<close> both give port 80. The reason: \<open>Invalid characters in input.\<close> is
  reported exactly when the conversion raised no error and left characters unconsumed.
\<close>

theorem parse_in_port_t_lenient:
  "parse_in_port_t E b [] w = Ret 0 w
 \<and> (list_all isspace ws \<and> ds \<noteq> [] \<and> list_all isdigit ds \<and> decimal_value 0 ds \<le> UINT16_MAX \<longrightarrow>
      parse_in_port_t E b (ws @ CHR ''+'' # ds) w = Ret (of_nat (decimal_value 0 ds)) w
    \<and> parse_in_port_t E b (ws @ ds) w = Ret (of_nat (decimal_value 0 ds)) w
    \<and> unat (of_nat (decimal_value 0 ds) :: 16 word) = decimal_value 0 ds)
 \<and> parse_in_port_t E b ''+80'' w = Ret 80 w
 \<and> parse_in_port_t E b '' 80'' w = Ret 80 w
 \<and> ((parse_in_port_t E b s w = usage b EXIT_FAILURE (Some ''Invalid characters in input.'') w)
      = (snd (snd (strtoumax s)) = 0 \<and> fst (snd (strtoumax s)) \<noteq> []))"
proof -
  have empty: "parse_in_port_t E b [] w = Ret 0 w"
    by (simp add: parse_in_port_t_def strtoumax_empty UINT16_MAX_def)
  have small: "v \<le> UINT16_MAX \<Longrightarrow> \<not> UINTMAX_MAX < v" for v
    by (simp add: UINT16_MAX_def UINTMAX_MAX_def)
  have plus: "parse_in_port_t E b (ws @ CHR ''+'' # ds) w = Ret (of_nat (decimal_value 0 ds)) w"
    if "list_all isspace ws" "ds \<noteq> []" "list_all isdigit ds" "decimal_value 0 ds \<le> UINT16_MAX"
    for ws ds
    using that small [OF that(4)]
    by (simp add: parse_in_port_t_converted [OF strtoumax_plus_digits])
  have space: "parse_in_port_t E b (ws @ ds) w = Ret (of_nat (decimal_value 0 ds)) w"
    if "list_all isspace ws" "ds \<noteq> []" "list_all isdigit ds" "decimal_value 0 ds \<le> UINT16_MAX"
    for ws ds
    using that small [OF that(4)]
    by (simp add: parse_in_port_t_converted [OF strtoumax_space_digits])
  have p80: "parse_in_port_t E b ''+80'' w = Ret 80 w"
    using plus [of "[]" "''80''"] by (simp add: isdigit_def UINT16_MAX_def)
  have s80: "parse_in_port_t E b '' 80'' w = Ret 80 w"
    using space [of "'' ''" "''80''"] by (simp add: isdigit_def isspace_def UINT16_MAX_def)
  have why: "(parse_in_port_t E b s w = usage b EXIT_FAILURE (Some ''Invalid characters in input.'') w)
      = (snd (snd (strtoumax s)) = 0 \<and> fst (snd (strtoumax s)) \<noteq> [])"
  proof -
    obtain v r e where "strtoumax s = (v, r, e)" by (cases "strtoumax s") auto
    then show ?thesis
      by (simp add: parse_in_port_t_def usage_message_inj usage_not_Ret usage_not_errno)
  qed
  show ?thesis
    using empty plus space p80 s80 why by (simp add: unat_u16)
qed

theorem parse_in_port_t_lenient_witness:
  "parse_in_port_t loopback ''client'' [] start = Ret 0 start
 \<and> list_all isspace [CHR 0x09, CHR '' ''] \<and> list_all isdigit ''443''
 \<and> parse_in_port_t loopback ''client'' ([CHR 0x09, CHR '' ''] @ ''+443'') start = Ret 443 start
 \<and> parse_in_port_t loopback ''client'' ([CHR 0x09, CHR '' ''] @ ''443'') start = Ret 443 start
 \<and> parse_in_port_t loopback ''client'' ''+80'' start = Ret 80 start
 \<and> parse_in_port_t loopback ''client'' '' 80'' start = Ret 80 start"
  using parse_in_port_t_lenient
          [where E = loopback and b = "''client''" and w = start
             and ws = "[CHR 0x09, CHR '' '']" and ds = "''443''" and s = "[]"]
  by (simp add: isdigit_def isspace_def UINT16_MAX_def)

section \<open>Address resolution\<close>

lemma AF_INET_neq_AF_INET6: "AF_INET \<noteq> AF_INET6"
  by (simp add: AF_INET_def AF_INET6_def)

lemma convert_address_ipv4:
  assumes "inet_pton E AF_INET s = Some a"
  shows "convert_address E s w =
           Ret (zeroed_storage\<lparr>sin_addr := a, ss_family := AF_INET\<rparr>)
               (w\<lparr>calls := calls w @ [InetPton AF_INET s],
                  stdout_stdio := stdout_stdio w @ ''IPv4 found'' @ nl\<rparr>)"
  using assms by (simp add: convert_address_def Let_def)

lemma convert_address_ipv6:
  assumes "inet_pton E AF_INET s = None" and "inet_pton E AF_INET6 s = Some a"
  shows "convert_address E s w =
           Ret (zeroed_storage\<lparr>sin6_addr := a, ss_family := AF_INET6\<rparr>)
               (w\<lparr>calls := calls w @ [InetPton AF_INET s, InetPton AF_INET6 s]\<rparr>)"
  using assms by (simp add: convert_address_def Let_def)

lemma convert_address_neither:
  assumes "inet_pton E AF_INET s = None" and "inet_pton E AF_INET6 s = None"
  shows "convert_address E s w =
           Exited InvalidAddress EXIT_FAILURE
             (w\<lparr>calls := calls w @ [InetPton AF_INET s, InetPton AF_INET6 s],
                stderr := stderr w @ s @ '' is not an IPv4 or IPv6 address'' @ nl\<rparr>)"
  using assms by (simp add: convert_address_def Let_def)

lemma convert_address_calls:
  "calls (world_of (convert_address E s w)) =
     calls w @ (if inet_pton E AF_INET s = None
                then [InetPton AF_INET s, InetPton AF_INET6 s] else [InetPton AF_INET s])"
  by (simp add: convert_address_def Let_def split: option.splits)

lemma convert_address_Ret_family:
  assumes "convert_address E s w = Ret addr w'"
  shows "ss_family addr = AF_INET \<or> ss_family addr = AF_INET6"
  using assms by (auto simp: convert_address_def Let_def split: option.splits)

text \<open>
  C3. \<open>convert_address\<close> asks \<open>inet_pton\<close> for IPv4 first and for IPv6 only when that has
  failed. A text that \<open>inet_pton\<close> takes as IPv4 gives a structure tagged \<open>AF_INET\<close> holding
  that address; one it takes as IPv6 (and not as IPv4) gives a structure tagged \<open>AF_INET6\<close>;
  a text it takes as neither makes the process exit with status 1 after a message on the
  error stream that names the text.
\<close>

theorem convert_address_families:
  "calls (world_of (convert_address E s w)) =
     calls w @ (if inet_pton E AF_INET s = None
                then [InetPton AF_INET s, InetPton AF_INET6 s] else [InetPton AF_INET s])
 \<and> (inet_pton E AF_INET s4 = Some a4 \<longrightarrow>
      map_option ss_family (returned (convert_address E s4 w)) = Some AF_INET
    \<and> map_option sin_addr (returned (convert_address E s4 w)) = Some a4
    \<and> stderr (world_of (convert_address E s4 w)) = stderr w)
 \<and> (inet_pton E AF_INET s6 = None \<and> inet_pton E AF_INET6 s6 = Some a6 \<longrightarrow>
      map_option ss_family (returned (convert_address E s6 w)) = Some AF_INET6
    \<and> map_option sin6_addr (returned (convert_address E s6 w)) = Some a6
    \<and> stderr (world_of (convert_address E s6 w)) = stderr w)
 \<and> (inet_pton E AF_INET bad = None \<and> inet_pton E AF_INET6 bad = None \<longrightarrow>
      exit_at (convert_address E bad w) = Some InvalidAddress
    \<and> exit_status (convert_address E bad w) = Some 1
    \<and> stderr (world_of (convert_address E bad w)) =
        stderr w @ bad @ '' is not an IPv4 or IPv6 address'' @ nl)"
  by (simp add: convert_address_calls convert_address_ipv4 convert_address_ipv6
                convert_address_neither EXIT_FAILURE_def)

theorem convert_address_families_witness:
  "inet_pton loopback AF_INET ''127.0.0.1'' = Some [127, 0, 0, 1]
 \<and> inet_pton loopback AF_INET ''::1'' = None
 \<and> inet_pton loopback AF_INET6 ''::1'' = Some (replicate 15 0 @ [1])
 \<and> inet_pton loopback AF_INET ''not-an-ip'' = None
 \<and> inet_pton loopback AF_INET6 ''not-an-ip'' = None
 \<and> map_option ss_family (returned (convert_address loopback ''127.0.0.1'' start)) = Some AF_INET
 \<and> map_option sin_addr (returned (convert_address loopback ''127.0.0.1'' start)) = Some [127, 0, 0, 1]
 \<and> map_option ss_family (returned (convert_address loopback ''::1'' start)) = Some AF_INET6
 \<and> exit_status (convert_address loopback ''not-an-ip'' start) = Some 1
 \<and> stderr (world_of (convert_address loopback ''not-an-ip'' start)) =
      ''not-an-ip is not an IPv4 or IPv6 address'' @ nl
 \<and> calls (world_of (convert_address loopback ''::1'' start)) =
      [InetPton AF_INET ''::1'', InetPton AF_INET6 ''::1'']"
  using convert_address_families
          [where E = loopback and w = start and s = "''::1''"
             and ?s4.0 = "''127.0.0.1''" and ?a4.0 = "[127, 0, 0, 1]"
             and ?s6.0 = "''::1''" and ?a6.0 = "replicate 15 0 @ [1]" and bad = "''not-an-ip''"]
  by (simp add: loopback_def start_def AF_INET_neq_AF_INET6)

section \<open>The command line\<close>

lemma getopt_first_lone_h:
  "getopt_first permute [prog, ''-h''] ''h:'' =
     \<lparr>g_ret = Some CHR ''?'', g_optind = 1, g_optopt = CHR ''h'', g_argv = [prog, ''-h'']\<rparr>"
  by (simp add: getopt_first_def is_option_element_def Let_def)

lemma getopt_first_h_with_argument:
  "getopt_first permute [prog, ''-h'', x] ''h:'' =
     \<lparr>g_ret = Some CHR ''h'', g_optind = 1, g_optopt = CHR ''?'', g_argv = [prog, ''-h'', x]\<rparr>"
  by (simp add: getopt_first_def is_option_element_def Let_def)

text \<open>
  C8 does not hold of the program. The option string given to \<open>getopt\<close> is \<open>"h:"\<close>, which
  makes \<open>-h\<close> an option with a required argument. Invoked with the lone flag \<open>-h\<close>, the
  program therefore reports \<open>Unknown option '-h'.\<close> before the usage text and exits with
  status 1; the usage text with exit status 0 is reached only when some argument follows
  \<open>-h\<close>.
\<close>

theorem main_lone_h:
  "main E [prog, ''-h''] =
     usage prog EXIT_FAILURE (Some (''Unknown option '' @ [CHR 0x27] @ ''-h'' @ [CHR 0x27] @ ''.'')) start
 \<and> exit_status (main E [prog, ''-h'']) = Some 1
 \<and> stderr (world_of (main E [prog, ''-h''])) =
      ''Unknown option '' @ [CHR 0x27] @ ''-h'' @ [CHR 0x27] @ ''.'' @ nl
      @ ''Usage: '' @ prog @ '' [-h] <ip address> <port> <command>'' @ nl
      @ ''Options:'' @ nl @ '' -h Display this help message'' @ nl
 \<and> main E [prog, ''-h'', x] = usage prog EXIT_SUCCESS None start
 \<and> exit_status (main E [prog, ''-h'', x]) = Some 0"
proof -
  have one: "parse_arguments E [prog, ''-h''] start =
      usage prog EXIT_FAILURE (Some (''Unknown option '' @ [CHR 0x27] @ ''-h'' @ [CHR 0x27] @ ''.'')) start"
    by (simp add: parse_arguments_def getopt_first_lone_h progname_def
                  UNKNOWN_OPTION_MESSAGE_LEN_def)
  have two: "parse_arguments E [prog, ''-h'', x] start = usage prog EXIT_SUCCESS None start"
    by (simp add: parse_arguments_def getopt_first_h_with_argument progname_def)
  have m1: "main E [prog, ''-h''] =
      usage prog EXIT_FAILURE (Some (''Unknown option '' @ [CHR 0x27] @ ''-h'' @ [CHR 0x27] @ ''.'')) start"
    unfolding main_def one by (simp add: usage_def and_then_def Let_def)
  have m2: "main E [prog, ''-h'', x] = usage prog EXIT_SUCCESS None start"
    unfolding main_def two by (simp add: usage_def and_then_def Let_def)
  show ?thesis
    unfolding m1 m2
    by (simp add: usage_exit_status usage_stderr EXIT_FAILURE_def EXIT_SUCCESS_def start_def)
qed

section \<open>The whole process\<close>

text \<open>
  Argument handling touches nothing but the error stream: each of its functions either
  leaves through \<open>usage\<close> or \<open>perror\<close>, or returns with the world as it found it. With
  the option string \<open>h:\<close>, \<open>getopt\<close> can only answer \<open>-1\<close>, \<open>h\<close> or \<open>?\<close>, so the
  \<open>default\<close> branch of the \<open>switch\<close> is never taken.
\<close>

lemma takes_arg_h: "takes_arg ''h:'' c = (if c = CHR ''h'' then Some True else None)"
  by auto

lemma getopt_first_h_ret:
  "g_ret (getopt_first p argv ''h:'') = None
   \<or> g_ret (getopt_first p argv ''h:'') = Some CHR ''h''
   \<or> g_ret (getopt_first p argv ''h:'') = Some CHR ''?''"
proof -
  define rest where "rest = (if p then dropWhile (\<lambda>a. \<not> is_option_element a) (tl argv) else tl argv)"
  show ?thesis
  proof (cases rest)
    case Nil
    then show ?thesis
      by (simp add: getopt_first_def Let_def rest_def [symmetric])
  next
    case (Cons a following)
    then show ?thesis
      by (simp add: getopt_first_def Let_def rest_def [symmetric] takes_arg_h del: takes_arg.simps)
  qed
qed

lemma parse_arguments_cases:
  obtains (helped) "parse_arguments E argv w = usage (progname argv) EXIT_SUCCESS None w"
  | (unknown) c where
      "parse_arguments E argv w =
         usage (progname argv) EXIT_FAILURE
           (Some (''Unknown option '' @ [CHR 0x27, CHR ''-'', c, CHR 0x27, CHR ''.''])) w"
  | (few) "parse_arguments E argv w =
             usage (progname argv) EXIT_FAILURE (Some ''Error: Too few arguments.'') w"
  | (many) "parse_arguments E argv w =
              usage (progname argv) EXIT_FAILURE (Some ''Error: Too many arguments.'') w"
  | (parsed) x where "parse_arguments E argv w = Ret x w"
proof -
  define g where "g = getopt_first (getopt_permute E) argv ''h:''"
  consider (n) "g_ret g = None" | (h) "g_ret g = Some CHR ''h''" | (q) "g_ret g = Some CHR ''?''"
    using getopt_first_h_ret [of "getopt_permute E" argv] by (auto simp: g_def)
  then show thesis
  proof cases
    case n
    consider (lt) "length argv < 4" | (gt) "length argv > 4" | (eq) "length argv = 4"
      by linarith
    then show thesis
    proof cases
      case lt
      show thesis
        by (rule few) (use n lt in \<open>simp add: parse_arguments_def Let_def g_def [symmetric]\<close>)
    next
      case gt
      show thesis
        by (rule many) (use n gt in \<open>simp add: parse_arguments_def Let_def g_def [symmetric]\<close>)
    next
      case eq
      show thesis
        by (rule parsed) (use n eq in \<open>simp add: parse_arguments_def Let_def g_def [symmetric]\<close>)
    qed
  next
    case h
    show thesis
      by (rule helped) (use h in \<open>simp add: parse_arguments_def Let_def g_def [symmetric]\<close>)
  next
    case q
    show thesis
      by (rule unknown [of "g_optopt g"])
         (use q in \<open>simp add: parse_arguments_def Let_def g_def [symmetric]
                                UNKNOWN_OPTION_MESSAGE_LEN_def\<close>)
  qed
qed

lemma strtoumax_errno: "strtoumax s = (v, r, e) \<Longrightarrow> e = 0 \<or> e = ERANGE"
  by (auto simp: strtoumax_def Let_def split: if_splits)

lemma parse_in_port_t_cases:
  obtains (invalid_chars) "parse_in_port_t E b s w =
                       usage b EXIT_FAILURE (Some ''Invalid characters in input.'') w"
  | (out_of_range) "parse_in_port_t E b s w =
                 usage b EXIT_FAILURE (Some ''in_port_t value out of range.'') w"
  | (range_error) "parse_in_port_t E b s w =
                  Exited PortParseErrno EXIT_FAILURE (perror E ''Error parsing in_port_t.'' ERANGE w)"
  | (port_ok) p where "parse_in_port_t E b s w = Ret p w"
proof -
  obtain v r e where s: "strtoumax s = (v, r, e)"
    by (cases "strtoumax s") auto
  consider (a) "e = ERANGE" | (b) "e = 0" "r \<noteq> []"
    | (c) "e = 0" "r = []" "unat v > UINT16_MAX"
    | (d) "e = 0" "r = []" "\<not> unat v > UINT16_MAX"
    using strtoumax_errno [OF s] by auto
  then show thesis
  proof cases
    case a
    show thesis
      by (rule range_error) (simp add: parse_in_port_t_def s a ERANGE_def)
  next
    case b
    show thesis
      by (rule invalid_chars) (simp add: parse_in_port_t_def s b)
  next
    case c
    show thesis
      by (rule out_of_range) (simp add: parse_in_port_t_def s c)
  next
    case d
    show thesis
      by (rule port_ok) (simp add: parse_in_port_t_def s d)
  qed
qed

lemma usage_passes:
  "(case (usage p c m w :: 'a result) of Exited s c' w' \<Rightarrow> Exited s c' w'
    | Killed g w' \<Rightarrow> Killed g w' | Ret a w' \<Rightarrow> f a w') =
     (usage p c m w :: 'b result)"
  by (simp add: usage_def Let_def)

lemma handle_arguments_cases:
  obtains (missing) m where
      "handle_arguments E b ip ps cmd w = usage b EXIT_FAILURE (Some m) w"
      and "m \<in> set [''The ip address is required.'', ''The port is required.'',
                    ''The command is required.'', ''Invalid characters in input.'',
                    ''in_port_t value out of range.'']"
  | (overflow) "handle_arguments E b ip ps cmd w =
                  Exited PortParseErrno EXIT_FAILURE (perror E ''Error parsing in_port_t.'' ERANGE w)"
  | (handled) i s c p where "ip = Some i" and "ps = Some s" and "cmd = Some c"
      and "parse_in_port_t E b s w = Ret p w"
      and "handle_arguments E b (Some i) (Some s) (Some c) w = Ret (i, c, p) w"
proof (cases ip)
  case None
  show thesis
    by (rule missing [of "''The ip address is required.''"]) (simp_all add: None handle_arguments_def)
next
  case ip: (Some i)
  show thesis
  proof (cases ps)
    case None
    show thesis
      by (rule missing [of "''The port is required.''"]) (simp_all add: ip None handle_arguments_def)
  next
    case ps: (Some s)
    show thesis
    proof (cases cmd)
      case None
      show thesis
        by (rule missing [of "''The command is required.''"])
           (simp_all add: ip ps None handle_arguments_def)
    next
      case c: (Some c)
      show thesis
      proof (cases rule: parse_in_port_t_cases [of E b s w])
        case invalid_chars
        show thesis
          by (rule missing [of "''Invalid characters in input.''"])
             (simp_all add: ip ps c invalid_chars handle_arguments_def usage_passes)
      next
        case out_of_range
        show thesis
          by (rule missing [of "''in_port_t value out of range.''"])
             (simp_all add: ip ps c out_of_range handle_arguments_def usage_passes)
      next
        case range_error
        show thesis
          by (rule overflow) (simp add: ip ps c range_error handle_arguments_def)
      next
        case (port_ok p)
        show thesis
          by (rule handled [OF ip ps c port_ok]) (simp add: ip ps c port_ok handle_arguments_def)
      qed
    qed
  qed
qed

lemma usage_world:
  "world_of (usage p c m w) =
     w\<lparr>stderr := stderr w @ (case m of None \<Rightarrow> [] | Some t \<Rightarrow> t @ nl)
          @ ''Usage: '' @ p @ '' [-h] <ip address> <port> <command>'' @ nl
          @ ''Options:'' @ nl @ '' -h Display this help message'' @ nl\<rparr>"
  by (simp add: usage_def Let_def split: option.splits)

lemma usage_exit_at: "exit_at (usage p c m w) = Some UsageExit"
  by (simp add: usage_def Let_def)

lemma usage_and_then: "and_then (usage p c m w) f = usage p c m w"
  by (simp add: and_then_def usage_def Let_def)

lemma and_then_Ret: "and_then (Ret a w) f = f a w"
  by (simp add: and_then_def)

lemma and_then_Exited: "and_then (Exited s c w) f = Exited s c w"
  by (simp add: and_then_def)


text \<open>
  So a run of \<open>main\<close> either ends during argument handling, in \<open>usage\<close> (without a
  message or with one of eight) or in the \<open>perror\<close> of the port parser, or it is the network
  part started in the initial world with the three operands and the port that
  \<open>parse_in_port_t\<close> returned.
\<close>

lemma main_cases:
  obtains (asked) "main E argv = usage (progname argv) EXIT_SUCCESS None start"
  | (unknown_option) c where
      "main E argv =
         usage (progname argv) EXIT_FAILURE
           (Some (''Unknown option '' @ [CHR 0x27, CHR ''-'', c, CHR 0x27, CHR ''.''])) start"
  | (rejected) m where "main E argv = usage (progname argv) EXIT_FAILURE (Some m) start"
      and "m \<in> set [''Error: Too few arguments.'', ''Error: Too many arguments.'',
                    ''The ip address is required.'', ''The port is required.'',
                    ''The command is required.'', ''Invalid characters in input.'',
                    ''in_port_t value out of range.'']"
  | (overflowed) "main E argv =
         Exited PortParseErrno EXIT_FAILURE (perror E ''Error parsing in_port_t.'' ERANGE start)"
  | (network) ip ps cmd port where
      "parse_arguments E argv start = Ret (Some ip, Some ps, Some cmd) start"
      and "parse_in_port_t E (progname argv) ps start = Ret port start"
      and "main E argv =
         and_then (convert_address E ip start) (\<lambda>addr w3.
         and_then (socket_create E (ss_family addr) w3) (\<lambda>sockfd w4.
         and_then (socket_connect E sockfd addr port w4) (\<lambda>addr' w5.
         and_then (write_to_socket E sockfd cmd w5) (\<lambda>_ w6.
         and_then (read_from_socket E sockfd w6) (\<lambda>_ w7.
         Exited MainReturn 0 w7)))))"
proof (cases rule: parse_arguments_cases [of E argv start])
  case helped
  show thesis
    by (rule asked) (simp add: main_def helped usage_and_then)
next
  case (unknown c)
  show thesis
    by (rule unknown_option [of c]) (simp add: main_def unknown usage_and_then)
next
  case few
  show thesis
    by (rule rejected [of "''Error: Too few arguments.''"]) (simp_all add: main_def few usage_and_then)
next
  case many
  show thesis
    by (rule rejected [of "''Error: Too many arguments.''"]) (simp_all add: main_def many usage_and_then)
next
  case (parsed x)
  obtain a b c where x: "x = (a, b, c)" by (cases x) auto
  show thesis
  proof (cases rule: handle_arguments_cases [of E "progname argv" a b c start])
    case (missing m)
    have "main E argv = usage (progname argv) EXIT_FAILURE (Some m) start"
      by (simp add: main_def parsed x missing(1) and_then_Ret usage_and_then)
    moreover have "m \<in> set [''Error: Too few arguments.'', ''Error: Too many arguments.'',
                    ''The ip address is required.'', ''The port is required.'',
                    ''The command is required.'', ''Invalid characters in input.'',
                    ''in_port_t value out of range.'']"
      using missing(2) by auto
    ultimately show thesis
      by (rule rejected)
  next
    case overflow
    show thesis
      by (rule overflowed) (simp add: main_def parsed x overflow and_then_Ret and_then_Exited)
  next
    case (handled i s k p)
    show thesis
      by (rule network [of i s k p])
         (simp_all add: main_def parsed x handled and_then_Ret)
  qed
qed

text \<open>
  The network part after a successful \<open>convert_address\<close>, run from any world: the six ways
  it can end, with what each has added to the world.
\<close>

lemma connection_outcomes:
  assumes fam: "ss_family addr = AF_INET \<or> ss_family addr = AF_INET6"
    and r: "r = and_then (socket_create E (ss_family addr) wA) (\<lambda>sockfd w4.
         and_then (socket_connect E sockfd addr port w4) (\<lambda>addr' w5.
         and_then (write_to_socket E sockfd cmd w5) (\<lambda>_ w6.
         and_then (read_from_socket E sockfd w6) (\<lambda>_ w7.
         Exited MainReturn 0 w7))))"
  obtains
    (no_socket) e where "sys_socket E = Inl e"
      and "exit_at r = Some SocketCreateFailed" and "exit_status r = Some 1"
      and "calls (world_of r) = calls wA @ [SysSocket (ss_family addr)]"
      and "stderr (world_of r) \<noteq> []" and "stdout_fd (world_of r) = stdout_fd wA"
      and "wire (world_of r) = wire wA"
  | (no_text) fd src where "sys_socket E = Inr fd"
      and "exit_at r = Some NtopFailed" and "exit_status r = Some 1"
      and "calls (world_of r) =
             calls wA @ [SysSocket (ss_family addr), InetNtop (ss_family addr) src]"
      and "stderr (world_of r) \<noteq> []" and "stdout_fd (world_of r) = stdout_fd wA"
      and "wire (world_of r) = wire wA"
  | (no_connection) fd e src addr' where "sys_socket E = Inr fd" and "sys_connect E = Some e"
      and "exit_at r = Some ConnectFailed" and "exit_status r = Some 1"
      and "calls (world_of r) =
             calls wA @ [SysSocket (ss_family addr), InetNtop (ss_family addr) src,
                         SysConnect fd addr']"
      and "stderr (world_of r) \<noteq> []" and "stdout_fd (world_of r) = stdout_fd wA"
      and "wire (world_of r) = wire wA"
  | (broken_pipe) fd src addr' where "sys_socket E = Inr fd" and "sys_connect E = None"
      and "sys_write E = Inl EPIPE"
      and "killed_by r = Some SIGPIPE" and "exit_at r = None" and "exit_status r = None"
      and "calls (world_of r) =
             calls wA @ [SysSocket (ss_family addr), InetNtop (ss_family addr) src,
                         SysConnect fd addr', SysSend fd [of_nat (length cmd)],
                         SysWrite fd (bytes_of cmd)]"
      and "stderr (world_of r) = stderr wA" and "stdout_fd (world_of r) = stdout_fd wA"
      and "wire (world_of r) = wire wA @ accepted (sys_send E) [of_nat (length cmd)]"
  | (no_close) fd e src addr' where "sys_socket E = Inr fd" and "sys_connect E = None"
      and "sys_write E \<noteq> Inl EPIPE" and "sys_close E = Some e"
      and "exit_at r = Some CloseFailed" and "exit_status r = Some 1"
      and "calls (world_of r) =
             calls wA @ [SysSocket (ss_family addr), InetNtop (ss_family addr) src,
                         SysConnect fd addr', SysSend fd [of_nat (length cmd)],
                         SysWrite fd (bytes_of cmd), SysRecv fd LINE_LENGTH, SysClose fd]"
      and "stderr (world_of r) \<noteq> []"
      and "stdout_fd (world_of r) = stdout_fd wA
             @ (case sys_recv E of Inl e \<Rightarrow> wild_write E | Inr d \<Rightarrow> take LINE_LENGTH d)"
  | (normal) fd src addr' out where "sys_socket E = Inr fd" and "sys_connect E = None"
      and "sys_write E \<noteq> Inl EPIPE" and "sys_close E = None"
      and "exit_at r = Some MainReturn" and "exit_status r = Some 0"
      and "calls (world_of r) =
             calls wA @ [SysSocket (ss_family addr), InetNtop (ss_family addr) src,
                         SysConnect fd addr', SysSend fd [of_nat (length cmd)],
                         SysWrite fd (bytes_of cmd), SysRecv fd LINE_LENGTH, SysClose fd]"
      and "stderr (world_of r) = stderr wA"
      and "stdout_fd (world_of r) = stdout_fd wA
             @ (case sys_recv E of Inl e \<Rightarrow> wild_write E | Inr d \<Rightarrow> take LINE_LENGTH d)"
      and "stdout_stdio (world_of r) = stdout_stdio wA @ out @ ''Read bytes: ''
             @ show_int (case sys_recv E of Inl e \<Rightarrow> - 1
                         | Inr d \<Rightarrow> int (length (take LINE_LENGTH d)))
             @ nl"
      and "wire (world_of r) = wire wA @ accepted (sys_send E) [of_nat (length cmd)]
                                       @ accepted (sys_write E) (bytes_of cmd)"
proof (cases "sys_socket E")
  case (Inl e)
  show thesis
    by (rule no_socket [OF Inl]) (simp_all add: r Inl and_then_def socket_create_def EXIT_FAILURE_def)
next
  case sock: (Inr fd)
  define src where "src = (if ss_family addr = AF_INET then sin_addr addr else sin6_addr addr)"
  show thesis
  proof (cases "inet_ntop E (ss_family addr) src")
    case (Inl e)
    show thesis
      by (rule no_text [OF sock, where src = src])
         (use Inl in \<open>simp_all add: r sock src_def and_then_def socket_create_def
                                    socket_connect_def perror_def EXIT_FAILURE_def Let_def\<close>)
  next
    case shown: (Inr t)
    show thesis
    proof (cases "sys_connect E")
      case (Some e)
      show thesis
        by (rule no_connection [OF sock Some, where src = src and addr' = "addr\<lparr>sa_port := htons port\<rparr>"])
           (use shown fam Some in \<open>auto simp: r sock src_def and_then_def socket_create_def
                                    socket_connect_def perror_def EXIT_FAILURE_def Let_def\<close>)
    next
      case conn: None
      show thesis
      proof (cases "sys_write E = Inl EPIPE")
        case True
        show thesis
          by (rule broken_pipe [OF sock conn True, where src = src and addr' = "addr\<lparr>sa_port := htons port\<rparr>"])
             (use shown fam conn True in \<open>auto simp: r sock src_def and_then_def socket_create_def
                   socket_connect_def write_to_socket_def accepted_def Let_def\<close>)
      next
        case alive: False
        show thesis
        proof (cases "sys_close E")
        case (Some e)
        show thesis
          by (rule no_close [OF sock conn alive Some, where src = src and addr' = "addr\<lparr>sa_port := htons port\<rparr>"])
             (use shown fam conn alive Some in \<open>auto simp: r sock src_def and_then_def socket_create_def
                   socket_connect_def write_to_socket_def read_from_socket_def socket_close_def
                   perror_def EXIT_FAILURE_def Let_def\<close>)
      next
        case None
        show thesis
          by (rule normal [OF sock conn alive None, where src = src and addr' = "addr\<lparr>sa_port := htons port\<rparr>"
                and out = "''Connecting to '' @ t @ '':'' @ show_nat (unat port) @ nl
                           @ ''Sock fd: '' @ show_nat fd @ nl
                           @ ''Addr: '' @ show_nat (unat (ss_family addr)) @ nl
                           @ ''Size: '' @ show_nat SIZEOF_SOCKADDR_STORAGE
                           @ ''Connected to: '' @ t @ '':'' @ show_nat (unat port) @ nl"])
             (use shown fam conn alive None in \<open>auto simp: r sock src_def and_then_def socket_create_def
                   socket_connect_def write_to_socket_def read_from_socket_def socket_close_def
                   perror_def EXIT_FAILURE_def Let_def\<close>)
        qed
      qed
    qed
  qed
qed

text \<open>All the ways a run of \<open>main\<close> can end.\<close>

lemma main_outcomes:
  obtains
    (help_exit) "main E argv = usage (progname argv) EXIT_SUCCESS None start"
  | (unknown_exit) c where
      "main E argv =
         usage (progname argv) EXIT_FAILURE
           (Some (''Unknown option '' @ [CHR 0x27, CHR ''-'', c, CHR 0x27, CHR ''.''])) start"
  | (usage_exit) m where "main E argv = usage (progname argv) EXIT_FAILURE (Some m) start"
      and "m \<in> set [''Error: Too few arguments.'', ''Error: Too many arguments.'',
                    ''The ip address is required.'', ''The port is required.'',
                    ''The command is required.'', ''Invalid characters in input.'',
                    ''in_port_t value out of range.'']"
  | (range_exit) "main E argv =
         Exited PortParseErrno EXIT_FAILURE (perror E ''Error parsing in_port_t.'' ERANGE start)"
  | (bad_address) "exit_at (main E argv) = Some InvalidAddress"
      and "exit_status (main E argv) = Some 1"
      and "\<not> socket_called (world_of (main E argv))"
      and "\<not> send_called (world_of (main E argv))"
      and "\<not> recv_called (world_of (main E argv))"
      and "\<not> close_called (world_of (main E argv))"
      and "stderr (world_of (main E argv)) \<noteq> []"
      and "stdout_fd (world_of (main E argv)) = []"
  | (socket_failed) e where "sys_socket E = Inl e"
      and "exit_at (main E argv) = Some SocketCreateFailed"
      and "exit_status (main E argv) = Some 1"
      and "socket_called (world_of (main E argv))"
      and "\<not> send_called (world_of (main E argv))"
      and "\<not> recv_called (world_of (main E argv))"
      and "\<not> close_called (world_of (main E argv))"
      and "stderr (world_of (main E argv)) \<noteq> []"
      and "stdout_fd (world_of (main E argv)) = []"
  | (ntop_failed) fd where "sys_socket E = Inr fd"
      and "exit_at (main E argv) = Some NtopFailed"
      and "exit_status (main E argv) = Some 1"
      and "socket_called (world_of (main E argv))"
      and "\<not> send_called (world_of (main E argv))"
      and "\<not> recv_called (world_of (main E argv))"
      and "\<not> close_called (world_of (main E argv))"
      and "stderr (world_of (main E argv)) \<noteq> []"
      and "stdout_fd (world_of (main E argv)) = []"
  | (connect_failed) fd e where "sys_socket E = Inr fd" and "sys_connect E = Some e"
      and "exit_at (main E argv) = Some ConnectFailed"
      and "exit_status (main E argv) = Some 1"
      and "socket_called (world_of (main E argv))"
      and "\<not> send_called (world_of (main E argv))"
      and "\<not> recv_called (world_of (main E argv))"
      and "\<not> close_called (world_of (main E argv))"
      and "stderr (world_of (main E argv)) \<noteq> []"
      and "stdout_fd (world_of (main E argv)) = []"
  | (killed) fd pre cmd where "sys_socket E = Inr fd" and "sys_connect E = None"
      and "sys_write E = Inl EPIPE"
      and "killed_by (main E argv) = Some SIGPIPE"
      and "exit_at (main E argv) = None"
      and "exit_status (main E argv) = None"
      and "calls (world_of (main E argv)) =
             pre @ [SysSend fd [of_nat (length cmd)], SysWrite fd (bytes_of cmd)]"
      and "\<not> list_ex is_recv pre" and "\<not> list_ex is_close pre"
      and "stderr (world_of (main E argv)) = []"
      and "stdout_fd (world_of (main E argv)) = []"
  | (close_failed) fd e pre where "sys_socket E = Inr fd" and "sys_connect E = None"
      and "sys_write E \<noteq> Inl EPIPE" and "sys_close E = Some e"
      and "exit_at (main E argv) = Some CloseFailed"
      and "exit_status (main E argv) = Some 1"
      and "calls (world_of (main E argv)) = pre @ [SysRecv fd LINE_LENGTH, SysClose fd]"
      and "\<not> list_ex is_recv pre" and "\<not> list_ex is_close pre"
      and "stderr (world_of (main E argv)) \<noteq> []"
      and "stdout_fd (world_of (main E argv)) =
             (case sys_recv E of Inl e \<Rightarrow> wild_write E | Inr d \<Rightarrow> take LINE_LENGTH d)"
  | (completed) fd pre out cmd where "sys_socket E = Inr fd" and "sys_connect E = None"
      and "sys_write E \<noteq> Inl EPIPE" and "sys_close E = None"
      and "exit_at (main E argv) = Some MainReturn"
      and "exit_status (main E argv) = Some 0"
      and "calls (world_of (main E argv)) =
             pre @ [SysSend fd [of_nat (length cmd)], SysWrite fd (bytes_of cmd),
                    SysRecv fd LINE_LENGTH, SysClose fd]"
      and "\<not> list_ex is_recv pre" and "\<not> list_ex is_close pre"
      and "stderr (world_of (main E argv)) = []"
      and "stdout_fd (world_of (main E argv)) =
             (case sys_recv E of Inl e \<Rightarrow> wild_write E | Inr d \<Rightarrow> take LINE_LENGTH d)"
      and "stdout_stdio (world_of (main E argv)) =
             out @ ''Read bytes: ''
             @ show_int (case sys_recv E of Inl e \<Rightarrow> - 1
                         | Inr d \<Rightarrow> int (length (take LINE_LENGTH d)))
             @ nl"
      and "wire (world_of (main E argv)) =
             accepted (sys_send E) [of_nat (length cmd)] @ accepted (sys_write E) (bytes_of cmd)"
proof (cases rule: main_cases [of E argv])
  case asked
  then show thesis by (rule help_exit)
next
  case (unknown_option c)
  then show thesis by (rule unknown_exit)
next
  case (rejected m)
  then show thesis by (rule usage_exit)
next
  case overflowed
  then show thesis by (rule range_exit)
next
  case (network ip ps cmd port)
  have connected: thesis
    if conv: "convert_address E ip start = Ret addr wA"
      and wA: "stderr wA = []" "stdout_fd wA = []" "wire wA = []"
              "\<not> list_ex is_socket (calls wA)" "\<not> list_ex is_send (calls wA)"
              "\<not> list_ex is_recv (calls wA)" "\<not> list_ex is_close (calls wA)"
    for addr wA
  proof -
    have fam: "ss_family addr = AF_INET \<or> ss_family addr = AF_INET6"
      using conv by (rule convert_address_Ret_family)
    have m: "main E argv = and_then (socket_create E (ss_family addr) wA) (\<lambda>sockfd w4.
         and_then (socket_connect E sockfd addr port w4) (\<lambda>addr' w5.
         and_then (write_to_socket E sockfd cmd w5) (\<lambda>_ w6.
         and_then (read_from_socket E sockfd w6) (\<lambda>_ w7.
         Exited MainReturn 0 w7))))"
      by (simp add: network(3) conv and_then_def)
    from fam m show thesis
    proof (cases rule: connection_outcomes)
      case (no_socket e)
      with wA show thesis
        by (intro socket_failed [of e]) (simp_all add: socket_called_def send_called_def recv_called_def close_called_def)
    next
      case (no_text fd src)
      with wA show thesis
        by (intro ntop_failed [of fd]) (simp_all add: socket_called_def send_called_def recv_called_def close_called_def)
    next
      case (no_connection fd e src addr')
      with wA show thesis
        by (intro connect_failed [of fd e]) (simp_all add: socket_called_def send_called_def recv_called_def close_called_def)
    next
      case (broken_pipe fd src addr')
      with wA show thesis
        by (intro killed [of fd "calls wA @ [SysSocket (ss_family addr),
               InetNtop (ss_family addr) src, SysConnect fd addr']" cmd]) simp_all
    next
      case (no_close fd e src addr')
      with wA show thesis
        by (intro close_failed [of fd e "calls wA @ [SysSocket (ss_family addr),
               InetNtop (ss_family addr) src, SysConnect fd addr', SysSend fd [of_nat (length cmd)],
               SysWrite fd (bytes_of cmd)]"]) simp_all
    next
      case (normal fd src addr' out)
      with wA show thesis
        by (intro completed [of fd "calls wA @ [SysSocket (ss_family addr),
               InetNtop (ss_family addr) src, SysConnect fd addr']" cmd "stdout_stdio wA @ out"])
           simp_all
    qed
  qed
  show thesis
  proof (cases "inet_pton E AF_INET ip")
    case (Some a)
    show thesis
      by (rule connected [OF convert_address_ipv4 [OF Some]]) (simp_all add: start_def)
  next
    case v4: None
    show thesis
    proof (cases "inet_pton E AF_INET6 ip")
      case (Some a)
      show thesis
        by (rule connected [OF convert_address_ipv6 [OF v4 Some]]) (simp_all add: start_def)
    next
      case None
      have "main E argv = Exited InvalidAddress EXIT_FAILURE
              (start\<lparr>calls := calls start @ [InetPton AF_INET ip, InetPton AF_INET6 ip],
                    stderr := stderr start @ ip @ '' is not an IPv4 or IPv6 address'' @ nl\<rparr>)"
        by (simp add: network(3) convert_address_neither [OF v4 None] and_then_def)
      then show thesis
        by (intro bad_address)
           (simp_all add: start_def EXIT_FAILURE_def socket_called_def send_called_def
                          recv_called_def close_called_def)
    qed
  qed
qed

lemma socket_connect_exit_at:
  "exit_at (socket_connect E sockfd addr port w) = Some InternalError
     \<longleftrightarrow> (\<exists>t. inet_ntop E (ss_family addr)
                  (if ss_family addr = AF_INET then sin_addr addr else sin6_addr addr) = Inr t)
         \<and> ss_family addr \<noteq> AF_INET \<and> ss_family addr \<noteq> AF_INET6"
  by (auto simp: socket_connect_def Let_def perror_def split: sum.splits option.splits)

lemma main_never_internal_error: "exit_at (main E argv) \<noteq> Some InternalError"
  by (cases rule: main_outcomes [of E argv]) (simp_all add: usage_exit_at)

text \<open>
  C9. A structure that \<open>convert_address\<close> returns is tagged \<open>AF_INET\<close> or \<open>AF_INET6\<close>, so
  \<open>socket_connect\<close>, called on it with any descriptor, port and environment, never leaves
  through its internal-error branch; and no run of \<open>main\<close> ends there.
\<close>

theorem convert_address_family_known:
  assumes "convert_address E address w = Ret addr w'"
  shows "(ss_family addr = AF_INET \<or> ss_family addr = AF_INET6)
       \<and> exit_at (socket_connect E2 sockfd addr port w2) \<noteq> Some InternalError
       \<and> exit_at (main E2 argv) \<noteq> Some InternalError"
  using convert_address_Ret_family [OF assms]
  by (auto simp: socket_connect_exit_at main_never_internal_error)

theorem convert_address_family_known_witness:
  "convert_address loopback ''::1'' start =
     Ret (zeroed_storage\<lparr>sin6_addr := replicate 15 0 @ [1], ss_family := AF_INET6\<rparr>)
         (start\<lparr>calls := [InetPton AF_INET ''::1'', InetPton AF_INET6 ''::1'']\<rparr>)
 \<and> (ss_family (zeroed_storage\<lparr>sin6_addr := replicate 15 0 @ [1], ss_family := AF_INET6\<rparr>) = AF_INET
      \<or> ss_family (zeroed_storage\<lparr>sin6_addr := replicate 15 0 @ [1], ss_family := AF_INET6\<rparr>) = AF_INET6)
 \<and> exit_at (socket_connect loopback 3
               (zeroed_storage\<lparr>sin6_addr := replicate 15 0 @ [1], ss_family := AF_INET6\<rparr>) 9000
               (start\<lparr>calls := [InetPton AF_INET ''::1'', InetPton AF_INET6 ''::1'']\<rparr>))
      \<noteq> Some InternalError
 \<and> exit_at (main loopback [''client'', ''::1'', ''9000'', ''STATUS'']) \<noteq> Some InternalError"
proof -
  have c: "convert_address loopback ''::1'' start =
     Ret (zeroed_storage\<lparr>sin6_addr := replicate 15 0 @ [1], ss_family := AF_INET6\<rparr>)
         (start\<lparr>calls := [InetPton AF_INET ''::1'', InetPton AF_INET6 ''::1'']\<rparr>)"
    by (simp add: convert_address_def Let_def loopback_def start_def AF_INET_neq_AF_INET6)
  show ?thesis
    using c convert_address_family_known
              [OF c, where ?E2.0 = loopback and sockfd = 3 and port = 9000
                 and ?w2.0 = "start\<lparr>calls := [InetPton AF_INET ''::1'', InetPton AF_INET6 ''::1'']\<rparr>"
                 and argv = "[''client'', ''::1'', ''9000'', ''STATUS'']"]
    by simp
qed

section \<open>Sample runs\<close>

lemmas run_defs =
  main_def and_then_def parse_arguments_def getopt_first_def is_option_element_def
  handle_arguments_def parse_in_port_t_def strtoumax_def isspace_def isdigit_def UINTMAX_MAX_def
  UINT16_MAX_def ERANGE_def usage_def perror_def progname_def arg_def convert_address_def
  socket_create_def socket_connect_def socket_close_def read_from_socket_def write_to_socket_def
  accepted_def bytes_of_def zeroed_storage_def htons_def AF_INET_def AF_INET6_def EXIT_FAILURE_def
  EXIT_SUCCESS_def LINE_LENGTH_def SIZEOF_SOCKADDR_STORAGE_def show_int_def show_nat.simps
  digit_char_def char_of_def bit_Suc_0_iff start_def UNKNOWN_OPTION_MESSAGE_LEN_def Let_def
  loopback_def socket_called_def send_called_def recv_called_def close_called_def nl_def
  EPIPE_def SIGPIPE_def

text \<open>Scenario A: \<open>client 127.0.0.1 9000 PING\<close> against a peer that answers \<open>PONG\<close>.\<close>

lemma run_pong:
  "main loopback [''client'', ''127.0.0.1'', ''9000'', ''PING''] =
     Exited MainReturn 0
       \<lparr>stdout_stdio = ''IPv4 found'' @ nl @ ''Connecting to 127.0.0.1:9000'' @ nl
                        @ ''Sock fd: 3'' @ nl @ ''Addr: 2'' @ nl
                        @ ''Size: 128Connected to: 127.0.0.1:9000'' @ nl
                        @ ''Read bytes: 4'' @ nl,
        stdout_fd = [80, 79, 78, 71],
        stderr = [],
        wire = [4, 80, 73, 78, 71],
        calls = [InetPton AF_INET ''127.0.0.1'', SysSocket AF_INET,
                 InetNtop AF_INET [127, 0, 0, 1],
                 SysConnect 3 \<lparr>ss_family = AF_INET, sa_port = [35, 40],
                               sin_addr = [127, 0, 0, 1], sin6_addr = replicate 16 0\<rparr>,
                 SysSend 3 [4], SysWrite 3 [80, 73, 78, 71], SysRecv 3 1024, SysClose 3]\<rparr>"
  by (simp add: run_defs)


text \<open>The peer refuses the connection (\<open>ECONNREFUSED\<close>).\<close>

lemma run_refused:
  "main (loopback\<lparr>sys_connect := Some 111\<rparr>) [''client'', ''127.0.0.1'', ''9000'', ''PING''] =
     Exited ConnectFailed 1
       \<lparr>stdout_stdio = ''IPv4 found'' @ nl @ ''Connecting to 127.0.0.1:9000'' @ nl
                        @ ''Sock fd: 3'' @ nl @ ''Addr: 2'' @ nl @ ''Size: 128'',
        stdout_fd = [],
        stderr = ''connect: Connection refused'' @ nl,
        wire = [],
        calls = [InetPton AF_INET ''127.0.0.1'', SysSocket AF_INET,
                 InetNtop AF_INET [127, 0, 0, 1],
                 SysConnect 3 \<lparr>ss_family = AF_INET, sa_port = [35, 40],
                               sin_addr = [127, 0, 0, 1], sin6_addr = replicate 16 0\<rparr>]\<rparr>"
  by (simp add: run_defs)

text \<open>The peer resets the connection after the command is sent: \<open>recv\<close> fails (\<open>ECONNRESET\<close>).\<close>

lemma run_reset:
  "main (loopback\<lparr>sys_recv := Inl 104\<rparr>) [''client'', ''127.0.0.1'', ''9000'', ''PING''] =
     Exited MainReturn 0
       \<lparr>stdout_stdio = ''IPv4 found'' @ nl @ ''Connecting to 127.0.0.1:9000'' @ nl
                        @ ''Sock fd: 3'' @ nl @ ''Addr: 2'' @ nl
                        @ ''Size: 128Connected to: 127.0.0.1:9000'' @ nl
                        @ ''Read bytes: -1'' @ nl,
        stdout_fd = [],
        stderr = [],
        wire = [4, 80, 73, 78, 71],
        calls = [InetPton AF_INET ''127.0.0.1'', SysSocket AF_INET,
                 InetNtop AF_INET [127, 0, 0, 1],
                 SysConnect 3 \<lparr>ss_family = AF_INET, sa_port = [35, 40],
                               sin_addr = [127, 0, 0, 1], sin6_addr = replicate 16 0\<rparr>,
                 SysSend 3 [4], SysWrite 3 [80, 73, 78, 71], SysRecv 3 1024, SysClose 3]\<rparr>"
  by (simp add: run_defs)

text \<open>
  The peer resets the connection before the command is sent: \<open>send\<close> fails
  (\<open>ECONNRESET\<close>), \<open>write\<close> meets the broken pipe and the process is killed by
  \<open>SIGPIPE\<close> before it calls \<open>recv\<close>.
\<close>

lemma run_broken_pipe:
  "main (loopback\<lparr>sys_send := Inl 104, sys_write := Inl 32\<rparr>)
        [''client'', ''127.0.0.1'', ''9000'', ''PING''] =
     Killed 13
       \<lparr>stdout_stdio = ''IPv4 found'' @ nl @ ''Connecting to 127.0.0.1:9000'' @ nl
                        @ ''Sock fd: 3'' @ nl @ ''Addr: 2'' @ nl
                        @ ''Size: 128Connected to: 127.0.0.1:9000'' @ nl,
        stdout_fd = [],
        stderr = [],
        wire = [],
        calls = [InetPton AF_INET ''127.0.0.1'', SysSocket AF_INET,
                 InetNtop AF_INET [127, 0, 0, 1],
                 SysConnect 3 \<lparr>ss_family = AF_INET, sa_port = [35, 40],
                               sin_addr = [127, 0, 0, 1], sin6_addr = replicate 16 0\<rparr>,
                 SysSend 3 [4], SysWrite 3 [80, 73, 78, 71]]\<rparr>"
  by (simp add: run_defs)

section \<open>Streams, exit status and the socket's lifetime\<close>

lemma loopback_fields:
  "sys_socket loopback = Inr 3" "sys_connect loopback = None" "sys_send loopback = Inr 1"
  "sys_write loopback = Inr 4" "sys_recv loopback = Inr (bytes_of ''PONG'')"
  "sys_close loopback = None" "wild_write loopback = []"
  by (simp_all add: loopback_def)



























text \<open>
  Once a run has got as far as the \<open>send\<close> and is not killed by a broken pipe, it exits
  with status 0 and an empty error stream whenever \<open>close\<close> succeeds, whatever else
  \<open>send\<close>, \<open>write\<close> and \<open>recv\<close> reported.
\<close>

lemma main_ignores_io_results:
  assumes "send_called (world_of (main E argv))" and "sys_close E = None"
    and "sys_send E \<noteq> Inl EPIPE" and "sys_write E \<noteq> Inl EPIPE"
  shows "exit_status (main E argv) = Some 0 \<and> stderr (world_of (main E argv)) = []"
  using assms
  by (cases rule: main_outcomes [of E argv])
     (auto simp: send_called_def usage_world start_def perror_def)

text \<open>
  C5 does not hold of the program: the return values of \<open>send\<close>, \<open>write\<close> and \<open>recv\<close> are
  never looked at. When the peer resets the connection, so that \<open>recv\<close> fails with
  \<open>ECONNRESET\<close>, the program prints \<open>Read bytes: -1\<close>, writes no diagnostic to the error
  stream, closes the socket and exits with status 0.
\<close>

theorem main_exit_0_after_failed_recv:
  "sys_recv (loopback\<lparr>sys_recv := Inl 104\<rparr>) = Inl 104
 \<and> exit_status (main (loopback\<lparr>sys_recv := Inl 104\<rparr>)
                     [''client'', ''127.0.0.1'', ''9000'', ''PING'']) = Some 0
 \<and> stderr (world_of (main (loopback\<lparr>sys_recv := Inl 104\<rparr>)
                           [''client'', ''127.0.0.1'', ''9000'', ''PING''])) = []
 \<and> stdout_stdio (world_of (main (loopback\<lparr>sys_recv := Inl 104\<rparr>)
                                 [''client'', ''127.0.0.1'', ''9000'', ''PING''])) =
      ''IPv4 found'' @ nl @ ''Connecting to 127.0.0.1:9000'' @ nl
      @ ''Sock fd: 3'' @ nl @ ''Addr: 2'' @ nl
      @ ''Size: 128Connected to: 127.0.0.1:9000'' @ nl
      @ ''Read bytes: -1'' @ nl"
  by (simp add: run_reset)

text \<open>
  C6, as the program has it. A run that completes normally has closed the socket, once: its
  last two calls are the \<open>recv\<close> and the one \<open>close\<close>, on the descriptor that \<open>socket\<close>
  returned, and only such a run exits with status 0 after calling \<open>socket\<close>. A run that
  ends because \<open>inet_ntop\<close> or \<open>connect\<close> failed has created the socket and exits with
  status 1 without ever calling \<open>close\<close>.
\<close>

theorem main_socket_close:
  "(exit_at (main E argv) = Some MainReturn \<longrightarrow>
      (\<exists>fd pre. sys_socket E = Inr fd \<and> \<not> list_ex is_close pre
         \<and> calls (world_of (main E argv)) = pre @ [SysRecv fd LINE_LENGTH, SysClose fd]))
 \<and> (exit_status (main E argv) = Some 0 \<and> socket_called (world_of (main E argv)) \<longrightarrow>
      exit_at (main E argv) = Some MainReturn \<and> close_called (world_of (main E argv)))
 \<and> (exit_at (main E argv) = Some NtopFailed \<or> exit_at (main E argv) = Some ConnectFailed \<longrightarrow>
      (\<exists>fd. sys_socket E = Inr fd)
    \<and> socket_called (world_of (main E argv))
    \<and> \<not> close_called (world_of (main E argv))
    \<and> exit_status (main E argv) = Some 1)"
proof (cases rule: main_outcomes [of E argv])
  case help_exit
  then show ?thesis by (simp add: usage_exit_at usage_world socket_called_def start_def)
next
  case (unknown_exit c)
  then show ?thesis by (simp add: usage_exit_at usage_world socket_called_def start_def)
next
  case (usage_exit m)
  then show ?thesis by (simp add: usage_exit_at usage_world socket_called_def start_def)
next
  case range_exit
  then show ?thesis by (simp add: perror_def socket_called_def start_def)
next
  case bad_address
  then show ?thesis by auto
next
  case (socket_failed e)
  then show ?thesis by auto
next
  case (ntop_failed fd)
  then show ?thesis by auto
next
  case (connect_failed fd e)
  then show ?thesis by auto
next
  case (killed fd pre cmd)
  then show ?thesis by auto
next
  case (close_failed fd e pre)
  then show ?thesis by auto
next
  case (completed fd pre out cmd)
  have "close_called (world_of (main E argv))"
    using completed(7) by (simp add: close_called_def)
  moreover have "\<exists>p. \<not> list_ex is_close p
      \<and> calls (world_of (main E argv)) = p @ [SysRecv fd LINE_LENGTH, SysClose fd]"
    using completed(7,9)
    by (intro exI [of _ "pre @ [SysSend fd [of_nat (length cmd)], SysWrite fd (bytes_of cmd)]"]) simp
  ultimately show ?thesis
    using completed by auto
qed

theorem main_socket_close_witness:
  "exit_at (main loopback [''client'', ''127.0.0.1'', ''9000'', ''PING'']) = Some MainReturn
 \<and> exit_status (main loopback [''client'', ''127.0.0.1'', ''9000'', ''PING'']) = Some 0
 \<and> socket_called (world_of (main loopback [''client'', ''127.0.0.1'', ''9000'', ''PING'']))
 \<and> close_called (world_of (main loopback [''client'', ''127.0.0.1'', ''9000'', ''PING'']))
 \<and> sys_socket loopback = Inr 3
 \<and> exit_at (main (loopback\<lparr>sys_connect := Some 111\<rparr>)
                 [''client'', ''127.0.0.1'', ''9000'', ''PING'']) = Some ConnectFailed
 \<and> socket_called (world_of (main (loopback\<lparr>sys_connect := Some 111\<rparr>)
                                  [''client'', ''127.0.0.1'', ''9000'', ''PING'']))
 \<and> \<not> close_called (world_of (main (loopback\<lparr>sys_connect := Some 111\<rparr>)
                                   [''client'', ''127.0.0.1'', ''9000'', ''PING'']))
 \<and> exit_status (main (loopback\<lparr>sys_connect := Some 111\<rparr>)
                     [''client'', ''127.0.0.1'', ''9000'', ''PING'']) = Some 1"
  using main_socket_close [of loopback "[''client'', ''127.0.0.1'', ''9000'', ''PING'']"]
        main_socket_close [of "loopback\<lparr>sys_connect := Some 111\<rparr>"
                              "[''client'', ''127.0.0.1'', ''9000'', ''PING'']"]
  by (simp add: run_pong run_refused socket_called_def close_called_def loopback_fields)

text \<open>
  C6 as the claim states it fails when the peer refuses the connection: the socket has been
  created as descriptor 3, \<open>connect\<close> is the last call the process makes, and it exits with
  status 1 without a \<open>close\<close>.
\<close>

theorem main_refused_leaves_socket_open:
  "sys_socket (loopback\<lparr>sys_connect := Some 111\<rparr>) = Inr 3
 \<and> calls (world_of (main (loopback\<lparr>sys_connect := Some 111\<rparr>)
                          [''client'', ''127.0.0.1'', ''9000'', ''PING''])) =
      [InetPton AF_INET ''127.0.0.1'', SysSocket AF_INET, InetNtop AF_INET [127, 0, 0, 1],
       SysConnect 3 \<lparr>ss_family = AF_INET, sa_port = [35, 40],
                     sin_addr = [127, 0, 0, 1], sin6_addr = replicate 16 0\<rparr>]
 \<and> \<not> close_called (world_of (main (loopback\<lparr>sys_connect := Some 111\<rparr>)
                                   [''client'', ''127.0.0.1'', ''9000'', ''PING'']))
 \<and> exit_status (main (loopback\<lparr>sys_connect := Some 111\<rparr>)
                     [''client'', ''127.0.0.1'', ''9000'', ''PING'']) = Some 1"
  by (simp add: run_refused close_called_def loopback_fields)

end
